theory Spec2Isabelle
  imports Complex_Main "HOL-Library.Log_Nat"
begin

section \<open>Paths (pathlib, POSIX flavour)\<close>

text \<open>
  A \<^verbatim>\<open>pathlib.Path\<close> is modelled by its \<^verbatim>\<open>parts\<close> tuple: the components of the
  path, preceded by the root (\<^verbatim>\<open>/\<close> or \<^verbatim>\<open>//\<close>) when the path is absolute.  The functions
  below follow \<^verbatim>\<open>PurePosixPath\<close>: \<^verbatim>\<open>splitroot\<close>, \<^verbatim>\<open>parse_parts\<close>, \<^verbatim>\<open>name\<close>,
  \<^verbatim>\<open>suffix\<close>, \<^verbatim>\<open>stem\<close>, \<^verbatim>\<open>with_suffix\<close>, \<^verbatim>\<open>relative_to\<close>, the \<^verbatim>\<open>/\<close> operator and
  \<^verbatim>\<open>as_posix\<close>.
\<close>

type_synonym path = "string list"

datatype exn =
    ModuleNotFoundError string
  | ValueError string
  | OverflowError string
  | IsADirectoryError string
  | OtherException string

text \<open>\<^verbatim>\<open>str(exc)\<close>\<close>

fun str_exn :: "exn \<Rightarrow> string" where
  "str_exn (ModuleNotFoundError m) = m"
| "str_exn (ValueError m) = m"
| "str_exn (OverflowError m) = m"
| "str_exn (IsADirectoryError m) = m"
| "str_exn (OtherException m) = m"

text \<open>\<^verbatim>\<open>s.split('/')\<close>\<close>

fun split_sep :: "string \<Rightarrow> string list" where
  "split_sep [] = [[]]"
| "split_sep (c # cs) =
     (if c = CHR ''/'' then [] # split_sep cs
      else (case split_sep cs of
              [] \<Rightarrow> [[c]]
            | x # xs \<Rightarrow> (c # x) # xs))"

text \<open>\<^verbatim>\<open>sep.join(xs)\<close>\<close>

fun join :: "string \<Rightarrow> string list \<Rightarrow> string" where
  "join sep [] = []"
| "join sep [x] = x"
| "join sep (x # y # ys) = x @ sep @ join sep (y # ys)"

text \<open>
  \<^verbatim>\<open>splitroot\<close>: exactly two leading slashes give the root \<^verbatim>\<open>//\<close>, one or more than two give
  \<^verbatim>\<open>/\<close>.
\<close>

definition splitroot :: "string \<Rightarrow> string \<times> string" where
  "splitroot part =
     (let stripped_part = dropWhile (\<lambda>c. c = CHR ''/'') part;
          k = length part - length stripped_part
      in if k = 0 then ([], part)
         else if k = 2 then (''//'', stripped_part)
         else (''/'', stripped_part))"

definition parse_segment :: "string \<Rightarrow> path" where
  "parse_segment part =
     (case splitroot part of
        (rt, rel) \<Rightarrow>
          (if rt = [] then [] else [rt]) @
          filter (\<lambda>x. x \<noteq> [] \<and> x \<noteq> ''.'') (split_sep rel))"

definition has_root :: "path \<Rightarrow> bool" where
  "has_root p = (case p of [] \<Rightarrow> False | r # _ \<Rightarrow> r \<noteq> [] \<and> hd r = CHR ''/'')"

text \<open>\<^verbatim>\<open>p / q\<close>: an absolute right operand replaces the left one.\<close>

definition joinpath :: "path \<Rightarrow> path \<Rightarrow> path" where
  "joinpath p q = (if has_root q then q else p @ q)"

text \<open>\<^verbatim>\<open>Path(*segments)\<close>\<close>

definition Path :: "string list \<Rightarrow> path" where
  "Path segments = foldl (\<lambda>acc s. joinpath acc (parse_segment s)) [] segments"

definition name :: "path \<Rightarrow> string" where
  "name p = (if length p = (if has_root p then 1 else 0) then [] else last p)"

text \<open>\<^verbatim>\<open>s.rfind(c)\<close> for a single character: the highest index of \<open>c\<close>, or \<open>-1\<close>.\<close>

definition rfind :: "string \<Rightarrow> char \<Rightarrow> int" where
  "rfind s c =
     (if c \<in> set s
      then int (length s) - 1 - int (length (takeWhile (\<lambda>x. x \<noteq> c) (rev s)))
      else - 1)"

definition name_suffix :: "string \<Rightarrow> string" where
  "name_suffix nm =
     (let i = rfind nm (CHR ''.'')
      in if 0 < i \<and> i < int (length nm) - 1 then drop (nat i) nm else [])"

definition suffix :: "path \<Rightarrow> string" where
  "suffix p = name_suffix (name p)"

definition stem :: "path \<Rightarrow> string" where
  "stem p =
     (let nm = name p; i = rfind nm (CHR ''.'')
      in if 0 < i \<and> i < int (length nm) - 1 then take (nat i) nm else nm)"

text \<open>
  \<^verbatim>\<open>with_suffix(suffix)\<close> for a valid suffix (it starts with a dot and has no separator,
  as \<^verbatim>\<open>".mp3"\<close>): a path with an empty name raises \<^verbatim>\<open>ValueError\<close>.
\<close>

definition with_suffix :: "path \<Rightarrow> string \<Rightarrow> exn + path" where
  "with_suffix p sfx =
     (let nm = name p
      in if nm = [] then Inl (ValueError ''path has an empty name'')
         else let old_suffix = suffix p;
                  nm' = (if old_suffix = [] then nm @ sfx
                         else take (length nm - length old_suffix) nm @ sfx)
              in Inr (butlast p @ [nm']))"

text \<open>\<^verbatim>\<open>p.relative_to(base)\<close>: \<^verbatim>\<open>ValueError\<close> unless \<open>base\<close> is a prefix of \<open>p\<close>.\<close>

definition relative_to :: "path \<Rightarrow> path \<Rightarrow> exn + path" where
  "relative_to p base =
     (if take (length base) p = base then Inr (drop (length base) p)
      else Inl (ValueError ''path is not in the subpath of the base''))"

text \<open>\<^verbatim>\<open>p.as_posix()\<close>, which is \<^verbatim>\<open>str(p)\<close> on POSIX.\<close>

definition as_posix :: "path \<Rightarrow> string" where
  "as_posix p =
     (case p of
        [] \<Rightarrow> ''.''
      | r # rest \<Rightarrow> if has_root p then r @ join ''/'' rest else join ''/'' p)"

text \<open>\<^verbatim>\<open>p.parent\<close>\<close>

definition parent :: "path \<Rightarrow> path" where
  "parent p = (if name p = [] then p else butlast p)"

text \<open>
  \<^verbatim>\<open>p.mkdir(parents=True, exist_ok=True)\<close> on the list of directories that exist: \<open>p\<close> and
  its ancestors are directories afterwards.
\<close>

definition mkdir_parents :: "path \<Rightarrow> path list \<Rightarrow> path list" where
  "mkdir_parents p ds = ds @ map (\<lambda>k. take k p) [1..<Suc (length p)]"

text \<open>\<^verbatim>\<open>s.lower()\<close> on ASCII letters.\<close>

definition lower_char :: "char \<Rightarrow> char" where
  "lower_char c =
     (let n = (of_char c :: nat)
      in if 65 \<le> n \<and> n \<le> 90 then char_of (n + 32) else c)"

definition lower :: "string \<Rightarrow> string" where
  "lower s = map lower_char s"

section \<open>Numbers\<close>

text \<open>
  A \<^verbatim>\<open>float\<close> is an IEEE 754 double: a finite value (a rational), an infinity with its sign
  (\<open>True\<close> for \<^verbatim>\<open>+inf\<close>), or \<^verbatim>\<open>nan\<close>.  The sign of a zero is not kept: nothing below
  depends on it.
\<close>

datatype pyfloat = Fin rat | Inf bool | NaN

text \<open>\<^verbatim>\<open>round(x)\<close> of a finite float: to the nearest integer, a tie to the even one.\<close>

definition py_round :: "rat \<Rightarrow> int" where
  "py_round x =
     (let f = \<lfloor>x\<rfloor>; d = x - of_int f
      in if d < 1 / 2 then f
         else if 1 / 2 < d then f + 1
         else if even f then f else f + 1)"

text \<open>Powers of two with an integer exponent.\<close>

definition pow2 :: "int \<Rightarrow> rat" where
  "pow2 k = (if 0 \<le> k then 2 ^ nat k else 1 / 2 ^ nat (- k))"

text \<open>The exponent of a positive number: \<open>2 ^ ilog2 x \<le> x < 2 ^ (ilog2 x + 1)\<close>.\<close>

definition ilog2 :: "rat \<Rightarrow> int" where
  "ilog2 x = (if 1 \<le> x then bitlen \<lfloor>x\<rfloor> - 1 else - bitlen (\<lceil>1 / x\<rceil> - 1))"

text \<open>
  Rounding to the nearest double, ties to the even significand: 53 bits of precision, the
  exponent not below \<open>-1022\<close> (gradual underflow).  The result is not yet checked for
  overflow.
\<close>

definition rnd_pos :: "rat \<Rightarrow> rat" where
  "rnd_pos x =
     (let u = pow2 (max (ilog2 x) (- 1022) - 52)
      in of_int (py_round (x / u)) * u)"

definition rnd_fin :: "rat \<Rightarrow> rat" where
  "rnd_fin x = (if x = 0 then 0 else if 0 < x then rnd_pos x else - rnd_pos (- x))"

text \<open>The double an exact result is rounded to; from \<open>2 ^ 1024\<close> on it is an infinity.\<close>

definition rnd :: "rat \<Rightarrow> pyfloat" where
  "rnd x =
     (let y = rnd_fin x
      in if pow2 1024 \<le> \<bar>y\<bar> then Inf (0 < x) else Fin y)"

text \<open>\<^verbatim>\<open>float(n)\<close> of an \<^verbatim>\<open>int\<close>\<close>

definition float_of_int :: "int \<Rightarrow> exn + pyfloat" where
  "float_of_int n =
     (case rnd (of_int n) of
        Fin y \<Rightarrow> Inr (Fin y)
      | _ \<Rightarrow> Inl (OverflowError ''int too large to convert to float''))"

text \<open>\<^verbatim>\<open>a / b\<close> of two \<^verbatim>\<open>int\<close>s, \<open>b\<close> not 0: the quotient, rounded once.\<close>

definition int_truediv :: "int \<Rightarrow> int \<Rightarrow> exn + pyfloat" where
  "int_truediv a b =
     (case rnd (of_int a / of_int b) of
        Fin y \<Rightarrow> Inr (Fin y)
      | _ \<Rightarrow> Inl (OverflowError ''integer division result too large for a float''))"

text \<open>\<^verbatim>\<open>x / y\<close> of two \<^verbatim>\<open>float\<close>s, \<open>y\<close> not 0.\<close>

fun float_div :: "pyfloat \<Rightarrow> pyfloat \<Rightarrow> pyfloat" where
  "float_div NaN y = NaN"
| "float_div (Fin p) NaN = NaN"
| "float_div (Inf s) NaN = NaN"
| "float_div (Inf s) (Inf t) = NaN"
| "float_div (Inf s) (Fin q) = Inf (s = (0 < q))"
| "float_div (Fin p) (Inf t) = Fin 0"
| "float_div (Fin p) (Fin q) = rnd (p / q)"

text \<open>\<^verbatim>\<open>x * 100\<close> of a \<^verbatim>\<open>float\<close>\<close>

fun float_times_100 :: "pyfloat \<Rightarrow> pyfloat" where
  "float_times_100 (Fin q) = rnd (q * 100)"
| "float_times_100 (Inf s) = Inf s"
| "float_times_100 NaN = NaN"

text \<open>\<^verbatim>\<open>round(x)\<close> of a \<^verbatim>\<open>float\<close>\<close>

fun round_float :: "pyfloat \<Rightarrow> exn + int" where
  "round_float (Fin q) = Inr (py_round q)"
| "round_float (Inf s) = Inl (OverflowError ''cannot convert float infinity to integer'')"
| "round_float NaN = Inl (ValueError ''cannot convert float NaN to integer'')"

section \<open>Progress payloads of the media library\<close>

text \<open>
  The values the progress logger keeps per bar: \<^verbatim>\<open>None\<close>, an \<^verbatim>\<open>int\<close> or a \<^verbatim>\<open>float\<close>.  A
  bar is a \<^verbatim>\<open>dict\<close> from attribute names to such values, and \<^verbatim>\<open>self.bars\<close> a \<^verbatim>\<open>dict\<close> from
  bar names to bars; both are association lists (the first binding of a key is the one a
  lookup sees).
\<close>

datatype pyval = PyNone | PyInt int | PyFloat pyfloat

type_synonym bar = "(string \<times> pyval) list"
type_synonym bars = "(string \<times> bar) list"

text \<open>Truth value of a Python value (\<^verbatim>\<open>bool(v)\<close>).\<close>

fun truthy :: "pyval \<Rightarrow> bool" where
  "truthy PyNone = False"
| "truthy (PyInt n) = (n \<noteq> 0)"
| "truthy (PyFloat (Fin q)) = (q \<noteq> 0)"
| "truthy (PyFloat (Inf s)) = True"
| "truthy (PyFloat NaN) = True"

text \<open>\<^verbatim>\<open>a or b\<close>\<close>

definition py_or :: "pyval \<Rightarrow> pyval \<Rightarrow> pyval" where
  "py_or a b = (if truthy a then a else b)"

text \<open>\<^verbatim>\<open>d.get(key)\<close> on a bar: \<^verbatim>\<open>None\<close> when the key is absent.\<close>

definition bar_get :: "bar \<Rightarrow> string \<Rightarrow> pyval" where
  "bar_get b key = (case map_of b key of None \<Rightarrow> PyNone | Some v \<Rightarrow> v)"

text \<open>\<^verbatim>\<open>float(v)\<close>; of \<^verbatim>\<open>None\<close> it is a \<^verbatim>\<open>TypeError\<close>.\<close>

fun to_float :: "pyval \<Rightarrow> exn + pyfloat" where
  "to_float (PyInt n) = float_of_int n"
| "to_float (PyFloat x) = Inr x"
| "to_float PyNone = Inl (OtherException ''float() argument must be a string or a real number'')"

text \<open>
  \<^verbatim>\<open>a / b\<close> for \<open>b\<close> not 0: two \<^verbatim>\<open>int\<close>s are divided exactly and rounded once; otherwise
  an \<^verbatim>\<open>int\<close> operand is converted to \<^verbatim>\<open>float\<close> first.
\<close>

fun truediv :: "pyval \<Rightarrow> pyval \<Rightarrow> exn + pyfloat" where
  "truediv (PyInt a) (PyInt b) = int_truediv a b"
| "truediv a b =
     (case to_float a of
        Inl exc \<Rightarrow> Inl exc
      | Inr x \<Rightarrow>
          (case to_float b of
             Inl exc \<Rightarrow> Inl exc
           | Inr y \<Rightarrow> Inr (float_div x y)))"

section \<open>mp4\_2\_mp3.py\<close>

text \<open>
  The media library is the environment: whether it could be imported
  (\<^verbatim>\<open>VideoFileClip is not None\<close>), what opening a clip and writing its audio do for a path
  in this run, and the directory listing.  Opening may raise; an opened clip has no audio
  track, or has one whose \<^verbatim>\<open>write_audiofile\<close> reports the given logger states, one call of
  the logger each, and then raises or returns.  An exception of the logger ends the write
  and is the exception of the write.
\<close>

datatype clip =
    Open_raises exn
  | No_audio
  | Audio "bars list" "exn option"

record env =
  moviepy_available :: bool
  VideoFileClip :: "path \<Rightarrow> clip"
  iterdir :: "path \<Rightarrow> path list"
  is_file :: "path \<Rightarrow> bool"

definition VIDEO_EXTENSIONS :: "string list" where
  "VIDEO_EXTENSIONS = [''.mp4'', ''.mkv'', ''.avi'', ''.mov'', ''.flv'', ''.wmv'', ''.m4v'']"

definition require_moviepy :: "env \<Rightarrow> exn option" where
  "require_moviepy e =
     (if \<not> moviepy_available e
      then Some (ModuleNotFoundError
        ''moviepy is required to convert videos. Install it with `pip install moviepy`.'')
      else None)"

text \<open>The calls of the logger during \<^verbatim>\<open>write_audiofile\<close>, on the caller's state \<open>s\<close>.\<close>

fun report :: "(bars \<Rightarrow> 's \<Rightarrow> exn + 's) \<Rightarrow> bars list \<Rightarrow> 's \<Rightarrow> 's \<times> exn option" where
  "report logger [] s = (s, None)"
| "report logger (bs # rest) s =
     (case logger bs s of
        Inl exc \<Rightarrow> (s, Some exc)
      | Inr s' \<Rightarrow> report logger rest s')"

text \<open>\<^verbatim>\<open>logger=None\<close>\<close>

definition mute :: "bars \<Rightarrow> unit \<Rightarrow> exn + unit" where
  "mute bs u = Inr u"

text \<open>
  \<^verbatim>\<open>video_to_audio_file\<close>, on the directories that exist and the state of the logger: the
  two afterwards, and the exception raised or the path returned.
\<close>

definition video_to_audio_file ::
    "env \<Rightarrow> (bars \<Rightarrow> 's \<Rightarrow> exn + 's) \<Rightarrow> path \<Rightarrow> path \<Rightarrow> path list \<times> 's
      \<Rightarrow> (path list \<times> 's) \<times> (exn + path)" where
  "video_to_audio_file e logger video_path audio_path w =
     (case w of
        (ds, s) \<Rightarrow>
          (case require_moviepy e of
             Some exc \<Rightarrow> ((ds, s), Inl exc)
           | None \<Rightarrow>
               (let ds = mkdir_parents (parent audio_path) ds
                in case VideoFileClip e video_path of
                     Open_raises exc \<Rightarrow> ((ds, s), Inl exc)
                   | No_audio \<Rightarrow>
                       ((ds, s), Inl (ValueError
                          (''Video '' @ [CHR 0x27] @ name video_path @ [CHR 0x27]
                             @ '' has no audio track'')))
                   | Audio reported raised \<Rightarrow>
                       (case report logger reported s of
                          (s, Some exc) \<Rightarrow> ((ds, s), Inl exc)
                        | (s, None) \<Rightarrow>
                            ((ds, s),
                             case raised of Some exc \<Rightarrow> Inl exc | None \<Rightarrow> Inr audio_path)))))"

definition iter_video_files :: "env \<Rightarrow> path \<Rightarrow> string list \<Rightarrow> path list" where
  "iter_video_files e folder suffixes =
     (let suffixes = map lower suffixes
      in filter (\<lambda>candidate. is_file e candidate \<and> lower (suffix candidate) \<in> set suffixes)
           (iterdir e folder))"

definition audio_target :: "path \<Rightarrow> string \<Rightarrow> path \<Rightarrow> path" where
  "audio_target output_folder_path audio_format video_path =
     (let audio_name = stem video_path @ ''.'' @ audio_format
      in joinpath output_folder_path (parse_segment audio_name))"

text \<open>
  The loop of \<^verbatim>\<open>video_to_audio_folder\<close>; the first component records the files handed to
  \<^verbatim>\<open>video_to_audio_file\<close>, the second is \<^verbatim>\<open>generated\<close>.
\<close>

fun folder_loop :: "env \<Rightarrow> path \<Rightarrow> string \<Rightarrow> path list \<Rightarrow> path list
    \<Rightarrow> path list \<times> path list \<Rightarrow> path list \<times> path list" where
  "folder_loop e out fmt [] ds acc = acc"
| "folder_loop e out fmt (video_path # rest) ds (attempted, generated) =
     (case video_to_audio_file e mute video_path (audio_target out fmt video_path) (ds, ()) of
        ((ds, u), Inr produced) \<Rightarrow>
          folder_loop e out fmt rest ds (attempted @ [video_path], generated @ [produced])
      | ((ds, u), Inl exc) \<Rightarrow>
          folder_loop e out fmt rest ds (attempted @ [video_path], generated))"

definition video_to_audio_folder ::
    "env \<Rightarrow> string \<Rightarrow> string option \<Rightarrow> string \<Rightarrow> path list \<times> (exn + path list)" where
  "video_to_audio_folder e video_folder output_folder audio_format =
     (case require_moviepy e of
        Some exc \<Rightarrow> ([], Inl exc)
      | None \<Rightarrow>
          (let video_folder_path = Path [video_folder];
               output_folder_path =
                 (case output_folder of
                    None \<Rightarrow> video_folder_path
                  | Some s \<Rightarrow> if s = [] then video_folder_path else Path [s])
           in case folder_loop e output_folder_path audio_format
                     (iter_video_files e video_folder_path VIDEO_EXTENSIONS)
                     (mkdir_parents output_folder_path []) ([], []) of
                (attempted, generated) \<Rightarrow> (attempted, Inr generated)))"

section \<open>web\_app.py: jobs and the job registry\<close>

record ConversionJob =
  job_id :: string
  status :: string
  total_files :: int
  converted :: int
  processed_files :: int
  errors :: "string list"
  message :: "string option"
  download_path :: "path option"
  temp_dir :: "path option"
  generated_files :: "string list"
  unsupported_files :: "string list"
  current_file :: "string option"
  current_progress :: int

text \<open>\<^verbatim>\<open>ConversionJob(id=...)\<close> with the defaults of the dataclass.\<close>

definition default_job :: "string \<Rightarrow> ConversionJob" where
  "default_job jid =
     \<lparr> job_id = jid, status = ''pending'', total_files = 0, converted = 0,
       processed_files = 0, errors = [], message = None, download_path = None,
       temp_dir = None, generated_files = [], unsupported_files = [],
       current_file = None, current_progress = 0 \<rparr>"

text \<open>The job \<^verbatim>\<open>convert\<close> registers before it starts the worker.\<close>

definition new_job :: "string \<Rightarrow> path list \<Rightarrow> path \<Rightarrow> string list \<Rightarrow> ConversionJob" where
  "new_job jid supported_files tmp unsupported =
     (default_job jid)
       \<lparr> total_files := int (length supported_files), temp_dir := Some tmp,
         unsupported_files := unsupported, message := Some ''Preparing conversion...'' \<rparr>"

type_synonym store = "string \<rightharpoonup> ConversionJob"

text \<open>One keyword argument of \<^verbatim>\<open>_update_job\<close>: a field and its new value.\<close>

datatype change =
    Set_status string
  | Set_message "string option"
  | Set_errors "string list"
  | Set_converted int
  | Set_processed_files int
  | Set_current_file "string option"
  | Set_current_progress int
  | Set_download_path "path option"
  | Set_generated_files "string list"

fun setattr :: "ConversionJob \<Rightarrow> change \<Rightarrow> ConversionJob" where
  "setattr job (Set_status v) = job\<lparr>status := v\<rparr>"
| "setattr job (Set_message v) = job\<lparr>message := v\<rparr>"
| "setattr job (Set_errors v) = job\<lparr>errors := v\<rparr>"
| "setattr job (Set_converted v) = job\<lparr>converted := v\<rparr>"
| "setattr job (Set_processed_files v) = job\<lparr>processed_files := v\<rparr>"
| "setattr job (Set_current_file v) = job\<lparr>current_file := v\<rparr>"
| "setattr job (Set_current_progress v) = job\<lparr>current_progress := v\<rparr>"
| "setattr job (Set_download_path v) = job\<lparr>download_path := v\<rparr>"
| "setattr job (Set_generated_files v) = job\<lparr>generated_files := v\<rparr>"

definition update_job :: "string \<Rightarrow> change list \<Rightarrow> store \<Rightarrow> store" where
  "update_job jid changes js =
     (case js jid of
        None \<Rightarrow> js
      | Some job \<Rightarrow> js(jid \<mapsto> foldl setattr job changes))"

section \<open>web\_app.py: upload names\<close>

definition sanitize_relative_path :: "string \<Rightarrow> path" where
  "sanitize_relative_path filename =
     (let candidate = Path [filename];
          safe_parts = filter (\<lambda>part. part \<noteq> [] \<and> part \<noteq> ''.'' \<and> part \<noteq> ''..'') candidate
      in if safe_parts = []
         then Path [if name candidate = [] then ''uploaded_file'' else name candidate]
         else Path safe_parts)"

text \<open>Where \<^verbatim>\<open>convert\<close> saves an upload: \<^verbatim>\<open>upload_dir / relative_path\<close>.\<close>

definition upload_destination :: "path \<Rightarrow> string \<Rightarrow> path" where
  "upload_destination upload_dir filename =
     joinpath upload_dir (sanitize_relative_path filename)"

definition ALLOWED_SUFFIXES :: "string set" where
  "ALLOWED_SUFFIXES = set (map lower VIDEO_EXTENSIONS)"

definition filter_supported :: "path list \<Rightarrow> path list" where
  "filter_supported files = filter (\<lambda>p. lower (suffix p) \<in> ALLOWED_SUFFIXES) files"

section \<open>web\_app.py: the progress logger\<close>

text \<open>
  The state of one run of the worker: the registry, the worker's locals \<^verbatim>\<open>errors\<close> and
  \<^verbatim>\<open>generated\<close>, the directories made under the output directory (which \<^verbatim>\<open>convert\<close> has
  just made, empty, when the worker starts) and the archive written.  Two fields only record
  what happened: \<open>seen\<close> is the registry after each call of \<^verbatim>\<open>_update_job\<close> (what a reader
  of the registry can see between two calls), \<open>attempted\<close> the files handed to
  \<^verbatim>\<open>video_to_audio_file\<close>.
\<close>

datatype zip_entry =
    Zip_write path string
  | Zip_writestr string string

fun arcname_of :: "zip_entry \<Rightarrow> string" where
  "arcname_of (Zip_write src arcname) = arcname"
| "arcname_of (Zip_writestr arcname text) = arcname"

record run =
  jobs :: store
  errs :: "string list"
  generated :: "(path \<times> path) list"
  dirs :: "path list"
  zip_file :: "(path \<times> zip_entry list) option"
  seen :: "store list"
  attempted :: "path list"

definition publish :: "string \<Rightarrow> change list \<Rightarrow> run \<Rightarrow> run" where
  "publish jid changes r =
     (let js = update_job jid changes (jobs r)
      in r\<lparr>jobs := js, seen := seen r @ [js]\<rparr>)"

text \<open>The first of the given bars that is present and not empty.\<close>

fun first_bar :: "bars \<Rightarrow> string list \<Rightarrow> bar option" where
  "first_bar bs [] = None"
| "first_bar bs (key # keys) =
     (case map_of bs key of
        None \<Rightarrow> first_bar bs keys
      | Some candidate \<Rightarrow> if candidate \<noteq> [] then Some candidate else first_bar bs keys)"

definition bar_total :: "bar \<Rightarrow> pyval" where
  "bar_total b = py_or (py_or (bar_get b ''total'') (bar_get b ''n'')) (PyInt 0)"

definition bar_completed :: "bar \<Rightarrow> pyval" where
  "bar_completed b =
     (let completed = bar_get b ''index'';
          completed = (if completed = PyNone then bar_get b ''value'' else completed);
          completed = (if completed = PyNone then bar_get b ''current'' else completed)
      in completed)"

text \<open>Lines 98 to 107: the \<^verbatim>\<open>fraction\<close> the bar gives, \<^verbatim>\<open>None\<close> when it gives none.\<close>

definition bar_fraction :: "bar \<Rightarrow> exn + pyval" where
  "bar_fraction b =
     (let fraction = bar_get b ''fraction''
      in if fraction = PyNone
         then (let total = bar_total b; completed = bar_completed b
               in if truthy total \<and> completed \<noteq> PyNone
                  then (case truediv completed total of
                          Inl exc \<Rightarrow> Inl exc
                        | Inr q \<Rightarrow> Inr (PyFloat q))
                  else Inr PyNone)
         else Inr fraction)"

text \<open>\<^verbatim>\<open>max(0, min(100, int(round(float(fraction) * 100))))\<close>\<close>

definition percent_of :: "pyval \<Rightarrow> exn + int" where
  "percent_of fraction =
     (case to_float fraction of
        Inl exc \<Rightarrow> Inl exc
      | Inr x \<Rightarrow>
          (case round_float (float_times_100 x) of
             Inl exc \<Rightarrow> Inl exc
           | Inr n \<Rightarrow> Inr (max 0 (min 100 n))))"

text \<open>
  \<^verbatim>\<open>JobProgressLogger.callback\<close>, given the logger's \<^verbatim>\<open>bars\<close> at the time of the call.
\<close>

definition callback :: "string \<Rightarrow> bars \<Rightarrow> run \<Rightarrow> exn + run" where
  "callback jid bs r =
     (case first_bar bs [''chunk'', ''chunks'', ''t''] of
        None \<Rightarrow> Inr r
      | Some b \<Rightarrow>
          (case bar_fraction b of
             Inl exc \<Rightarrow> Inl exc
           | Inr fraction \<Rightarrow>
               if fraction = PyNone then Inr r
               else (case percent_of fraction of
                       Inl exc \<Rightarrow> Inl exc
                     | Inr percent \<Rightarrow> Inr (publish jid [Set_current_progress percent] r))))"

section \<open>web\_app.py: the worker\<close>

text \<open>How the body of the loop is left: on to the next file, by \<^verbatim>\<open>return\<close>, or by an
  exception nothing catches.\<close>

datatype flow = Next | Returned | Uncaught exn

text \<open>The \<^verbatim>\<open>finally\<close> clause.\<close>

definition finally_update :: "string \<Rightarrow> int \<Rightarrow> bool \<Rightarrow> run \<Rightarrow> run" where
  "finally_update jid index success r =
     publish jid
       [Set_errors (errs r), Set_processed_files index,
        Set_current_progress (if success then 100 else 0)] r"

text \<open>\<^verbatim>\<open>except ModuleNotFoundError\<close>: the handler returns, after the \<^verbatim>\<open>finally\<close> clause.\<close>

definition on_module_not_found :: "string \<Rightarrow> int \<Rightarrow> exn \<Rightarrow> run \<Rightarrow> flow \<times> run" where
  "on_module_not_found jid index exc r =
     (let r = r\<lparr>errs := errs r @ [str_exn exc]\<rparr>;
          r = publish jid
                [Set_status ''failed'', Set_message (Some (str_exn exc)), Set_errors (errs r),
                 Set_processed_files index, Set_current_file None, Set_current_progress 0] r
      in (Returned, finally_update jid index False r))"

text \<open>\<^verbatim>\<open>except Exception\<close>\<close>

definition on_exception :: "string \<Rightarrow> int \<Rightarrow> path \<Rightarrow> exn \<Rightarrow> run \<Rightarrow> flow \<times> run" where
  "on_exception jid index relative exc r =
     (let r = r\<lparr>errs := errs r @ [as_posix relative @ '': '' @ str_exn exc]\<rparr>
      in (Next, finally_update jid index False r))"

text \<open>The \<^verbatim>\<open>else\<close> clause.\<close>

definition on_success :: "string \<Rightarrow> int \<Rightarrow> path \<Rightarrow> path \<Rightarrow> run \<Rightarrow> flow \<times> run" where
  "on_success jid index produced audio_relative r =
     (let r = r\<lparr>generated := generated r @ [(produced, audio_relative)]\<rparr>;
          r = publish jid [Set_converted (int (length (generated r)))] r
      in (Next, finally_update jid index True r))"

text \<open>
  The paths the loop computes for one file: \<^verbatim>\<open>relative\<close>, \<^verbatim>\<open>audio_relative\<close> and
  \<^verbatim>\<open>audio_path\<close>.  Both \<^verbatim>\<open>relative_to\<close> and \<^verbatim>\<open>with_suffix\<close> may raise, outside the
  \<^verbatim>\<open>try\<close> statement.
\<close>

definition audio_paths :: "path \<Rightarrow> path \<Rightarrow> path \<Rightarrow> exn + (path \<times> path \<times> path)" where
  "audio_paths upload_dir output_dir video_path =
     (case relative_to video_path upload_dir of
        Inl exc \<Rightarrow> Inl exc
      | Inr relative \<Rightarrow>
          (case with_suffix relative ''.mp3'' of
             Inl exc \<Rightarrow> Inl exc
           | Inr audio_relative \<Rightarrow>
               Inr (relative, audio_relative, joinpath output_dir audio_relative)))"

definition process_file ::
    "env \<Rightarrow> string \<Rightarrow> path \<Rightarrow> path \<Rightarrow> int \<Rightarrow> path \<Rightarrow> run \<Rightarrow> flow \<times> run" where
  "process_file e jid upload_dir output_dir index video_path r =
     (case audio_paths upload_dir output_dir video_path of
        Inl exc \<Rightarrow> (Uncaught exc, r)
      | Inr (relative, audio_relative, audio_path) \<Rightarrow>
          (let r = publish jid
                     [Set_current_file (Some (as_posix relative)),
                      Set_processed_files (index - 1), Set_current_progress 0] r;
               r = r\<lparr>attempted := attempted r @ [video_path]\<rparr>
           in case video_to_audio_file e (callback jid) video_path audio_path (dirs r, r) of
                ((ds, r), result) \<Rightarrow>
                  (let r = r\<lparr>dirs := ds\<rparr>
                   in case result of
                        Inl exc \<Rightarrow>
                          (case exc of
                             ModuleNotFoundError m \<Rightarrow> on_module_not_found jid index exc r
                           | _ \<Rightarrow> on_exception jid index relative exc r)
                      | Inr produced \<Rightarrow> on_success jid index produced audio_relative r)))"

text \<open>\<^verbatim>\<open>for index, video_path in enumerate(supported_files, start=1)\<close>\<close>

fun process_files ::
    "env \<Rightarrow> string \<Rightarrow> path \<Rightarrow> path \<Rightarrow> int \<Rightarrow> path list \<Rightarrow> run \<Rightarrow> flow \<times> run" where
  "process_files e jid upload_dir output_dir index [] r = (Next, r)"
| "process_files e jid upload_dir output_dir index (video_path # rest) r =
     (case process_file e jid upload_dir output_dir index video_path r of
        (Next, r') \<Rightarrow> process_files e jid upload_dir output_dir (index + 1) rest r'
      | (Returned, r') \<Rightarrow> (Returned, r')
      | (Uncaught exc, r') \<Rightarrow> (Uncaught exc, r'))"

definition zip_entries :: "(path \<times> path) list \<Rightarrow> string list \<Rightarrow> zip_entry list" where
  "zip_entries gen es =
     map (\<lambda>(audio_path, arcname). Zip_write audio_path (as_posix arcname)) gen @
     (if es \<noteq> []
      then [Zip_writestr ''conversion_report.txt''
              (''Some files could not be converted:'' @ [CHR 0x0A] @ join [CHR 0x0A] es)]
      else [])"

text \<open>
  What follows the loop when it ran to its end.  \<^verbatim>\<open>ZipFile(zip_path, "w")\<close> raises
  \<^verbatim>\<open>IsADirectoryError\<close> when \<^verbatim>\<open>zip_path\<close> is a directory, and nothing catches it.
\<close>

definition after_loop :: "string \<Rightarrow> path \<Rightarrow> run \<Rightarrow> flow \<times> run" where
  "after_loop jid output_dir r =
     (if generated r = []
      then (Returned,
            publish jid
             [Set_status ''failed'',
              Set_message (Some (if errs r \<noteq> [] then ''Conversion failed for all uploaded videos.''
                                 else ''No audio files were generated.'')),
              Set_current_file None, Set_current_progress 0] r)
      else (let zip_path = joinpath output_dir (parse_segment ''converted_audio.zip'');
                r = r\<lparr>dirs := mkdir_parents (parent zip_path) (dirs r)\<rparr>
            in if zip_path \<in> set (dirs r)
               then (Uncaught (IsADirectoryError
                       (''[Errno 21] Is a directory: '' @ [CHR 0x27] @ as_posix zip_path @ [CHR 0x27])),
                     r)
               else (let r = r\<lparr>zip_file := Some (zip_path, zip_entries (generated r) (errs r))\<rparr>
                     in (Returned,
                         publish jid
                          [Set_status ''completed'',
                           Set_message (Some (if errs r \<noteq> []
                                              then ''Conversion completed with some errors.''
                                              else ''Conversion completed!'')),
                           Set_download_path (Some zip_path),
                           Set_generated_files
                             (map (\<lambda>(audio_path, arcname). as_posix arcname) (generated r)),
                           Set_current_file None, Set_current_progress 100] r))))"

definition start_run :: "store \<Rightarrow> run" where
  "start_run js =
     \<lparr> jobs = js, errs = [], generated = [], dirs = [], zip_file = None, seen = [js],
       attempted = [] \<rparr>"

definition process_job :: "env \<Rightarrow> string \<Rightarrow> path \<Rightarrow> path \<Rightarrow> path list \<Rightarrow> store \<Rightarrow> flow \<times> run" where
  "process_job e jid upload_dir output_dir supported_files js =
     (let r = publish jid
                [Set_status ''running'', Set_message (Some ''Converting videos...''),
                 Set_errors [], Set_current_progress 0] (start_run js)
      in case process_files e jid upload_dir output_dir 1 supported_files r of
           (Next, r') \<Rightarrow> after_loop jid output_dir r'
         | (Returned, r') \<Rightarrow> (Returned, r')
         | (Uncaught exc, r') \<Rightarrow> (Uncaught exc, r'))"

section \<open>web\_app.py: download\<close>

datatype response = Not_found | Send_file path

text \<open>
  The server's state: the registry and the paths that exist on disk.  \<^verbatim>\<open>download\<close>
  includes the clean-up registered with \<^verbatim>\<open>after_this_request\<close>: it removes the job and the
  tree under its \<^verbatim>\<open>temp_dir\<close>.
\<close>

definition rmtree :: "path \<Rightarrow> path list \<Rightarrow> path list" where
  "rmtree d fs = filter (\<lambda>p. take (length d) p \<noteq> d) fs"

definition download :: "string \<Rightarrow> store \<times> path list \<Rightarrow> response \<times> store \<times> path list" where
  "download jid srv =
     (case srv of
        (js, fs) \<Rightarrow>
          (case js jid of
             None \<Rightarrow> (Not_found, js, fs)
           | Some job \<Rightarrow>
               if status job \<noteq> ''completed'' \<or> download_path job = None
               then (Not_found, js, fs)
               else (case download_path job of
                       None \<Rightarrow> (Not_found, js, fs)
                     | Some dp \<Rightarrow>
                         (Send_file dp,
                          js(jid := None),
                          (case temp_dir job of
                             None \<Rightarrow> fs
                           | Some d \<Rightarrow> if d \<in> set fs then rmtree d fs else fs)))))"

section \<open>Observations used in the statements\<close>

text \<open>The fraction the logger derives from its bars, \<^verbatim>\<open>None\<close> when it derives none.\<close>

definition event_fraction :: "bars \<Rightarrow> exn + pyval" where
  "event_fraction bs =
     (case first_bar bs [''chunk'', ''chunks'', ''t''] of
        None \<Rightarrow> Inr PyNone
      | Some b \<Rightarrow> bar_fraction b)"

text \<open>
  What a call of the logger comes to, whatever the registry holds: the exception it raises,
  \<^verbatim>\<open>None\<close> when it returns without an update, or the percentage it publishes.
\<close>

definition event_percent :: "bars \<Rightarrow> exn + int option" where
  "event_percent bs =
     (case event_fraction bs of
        Inl exc \<Rightarrow> Inl exc
      | Inr fraction \<Rightarrow>
          if fraction = PyNone then Inr None
          else (case percent_of fraction of
                  Inl exc \<Rightarrow> Inl exc
                | Inr percent \<Rightarrow> Inr (Some percent)))"

text \<open>A logger that raises as \<open>callback\<close> does and keeps no state.\<close>

definition probe :: "bars \<Rightarrow> unit \<Rightarrow> exn + unit" where
  "probe bs u = (case event_percent bs of Inl exc \<Rightarrow> Inl exc | Inr p \<Rightarrow> Inr u)"

text \<open>What converting a file in the worker comes to: the exception raised or the path
  returned by \<^verbatim>\<open>video_to_audio_file\<close> at the paths the worker computes, with the worker's
  logger.\<close>

definition conversion :: "env \<Rightarrow> path \<Rightarrow> path \<Rightarrow> path \<Rightarrow> exn + path" where
  "conversion e upload_dir output_dir video_path =
     (case audio_paths upload_dir output_dir video_path of
        Inl exc \<Rightarrow> Inl exc
      | Inr (relative, audio_relative, audio_path) \<Rightarrow>
          snd (video_to_audio_file e probe video_path audio_path ([], ())))"

text \<open>The file lies under the upload directory and has a name.\<close>

definition placed :: "path \<Rightarrow> path \<Rightarrow> bool" where
  "placed upload_dir video_path =
     (take (length upload_dir) video_path = upload_dir \<and>
      name (drop (length upload_dir) video_path) \<noteq> [])"

fun fatal :: "exn + path \<Rightarrow> bool" where
  "fatal (Inl (ModuleNotFoundError m)) = True"
| "fatal (Inl (ValueError m)) = False"
| "fatal (Inl (OverflowError m)) = False"
| "fatal (Inl (IsADirectoryError m)) = False"
| "fatal (Inl (OtherException m)) = False"
| "fatal (Inr p) = False"

fun succeeded :: "exn + path \<Rightarrow> bool" where
  "succeeded (Inl exc) = False"
| "succeeded (Inr p) = True"

text \<open>The archive name of a file: its path relative to the upload directory, the
  extension of its name replaced by \<^verbatim>\<open>.mp3\<close>.\<close>

definition audio_relative_of :: "path \<Rightarrow> path \<Rightarrow> path" where
  "audio_relative_of upload_dir video_path =
     (let relative = drop (length upload_dir) video_path
      in butlast relative @ [stem relative @ ''.mp3''])"

definition archive_name :: "path \<Rightarrow> path \<Rightarrow> string" where
  "archive_name upload_dir video_path = as_posix (audio_relative_of upload_dir video_path)"

text \<open>The line the error list gets for a file that failed.\<close>

definition error_line :: "env \<Rightarrow> path \<Rightarrow> path \<Rightarrow> path \<Rightarrow> string" where
  "error_line e upload_dir output_dir video_path =
     (case conversion e upload_dir output_dir video_path of
        Inl exc \<Rightarrow> as_posix (drop (length upload_dir) video_path) @ '': '' @ str_exn exc
      | Inr p \<Rightarrow> [])"

text \<open>
  The directories that converting the files makes (line 42 of mp4\_2\_mp3.py), and whether the
  path of the archive is a directory when the loop has attempted all the files.
\<close>

definition made_dirs :: "path \<Rightarrow> path \<Rightarrow> path list \<Rightarrow> path list \<Rightarrow> path list" where
  "made_dirs upload_dir output_dir ds files =
     foldl (\<lambda>ds f. mkdir_parents (parent (joinpath output_dir (audio_relative_of upload_dir f))) ds)
       ds files"

definition archive_blocked :: "path \<Rightarrow> path \<Rightarrow> path list \<Rightarrow> bool" where
  "archive_blocked upload_dir output_dir files =
     (let zip_path = joinpath output_dir (parse_segment ''converted_audio.zip'')
      in zip_path \<in> set (mkdir_parents (parent zip_path) (made_dirs upload_dir output_dir [] files)))"

text \<open>The counters of a job in a snapshot of the registry:
  \<^verbatim>\<open>(total_files, processed_files, converted)\<close>.\<close>

definition counters :: "string \<Rightarrow> store \<Rightarrow> (int \<times> int \<times> int) option" where
  "counters jid js =
     (case js jid of
        None \<Rightarrow> None
      | Some job \<Rightarrow> Some (total_files job, processed_files job, converted job))"

definition progress_in :: "string \<Rightarrow> store \<Rightarrow> int option" where
  "progress_in jid js = map_option current_progress (js jid)"

text \<open>The exact value of a number (0 for what is not a finite number).\<close>

fun num :: "pyval \<Rightarrow> rat" where
  "num (PyInt n) = of_int n"
| "num (PyFloat (Fin q)) = q"
| "num (PyFloat (Inf s)) = 0"
| "num (PyFloat NaN) = 0"
| "num PyNone = 0"

text \<open>The \<^verbatim>\<open>float\<close> a decimal literal denotes.\<close>

definition float_lit :: "rat \<Rightarrow> pyval" where
  "float_lit q = PyFloat (rnd q)"

text \<open>A clip converts when it opens, has an audio track and the write does not raise.\<close>

fun converts :: "clip \<Rightarrow> bool" where
  "converts (Audio reported None) = True"
| "converts (Audio reported (Some exc)) = False"
| "converts (Open_raises exc) = False"
| "converts No_audio = False"

text \<open>The bounds on the counters of a job of \<open>n\<close> files in a snapshot.\<close>

definition counters_ok :: "int \<Rightarrow> (int \<times> int \<times> int) option \<Rightarrow> bool" where
  "counters_ok n c =
     (case c of
        None \<Rightarrow> False
      | Some (tot, processed, conv) \<Rightarrow>
          tot = n \<and> 0 \<le> processed \<and> processed \<le> tot \<and>
          0 \<le> conv \<and> conv \<le> tot \<and> conv \<le> processed + 1)"

text \<open>The percentages in the snapshots that a run \<open>r'\<close> added to those of \<open>r\<close>.\<close>

definition published_progress :: "string \<Rightarrow> run \<Rightarrow> run \<Rightarrow> int list" where
  "published_progress jid r r' =
     List.map_filter (progress_in jid) (drop (length (seen r)) (seen r'))"

section \<open>Example inputs\<close>

definition example_job :: ConversionJob where
  "example_job = new_job ''job-1'' [[''/'', ''t'', ''uploads'', ''a.mp4'']] [''/'', ''t''] []"

definition example_run :: run where
  "example_run = start_run [''job-1'' \<mapsto> example_job\<lparr>current_progress := 7\<rparr>]"

definition example_env :: env where
  "example_env =
     \<lparr> moviepy_available = True,
       VideoFileClip = (\<lambda>p. if p = [''/'', ''t'', ''uploads'', ''b.mp4''] then No_audio
                             else Audio [] None),
       iterdir = (\<lambda>p. []),
       is_file = (\<lambda>p. True) \<rparr>"

definition example_files :: "path list" where
  "example_files =
     [[''/'', ''t'', ''uploads'', ''a.mp4''], [''/'', ''t'', ''uploads'', ''b.mp4''],
      [''/'', ''t'', ''uploads'', ''c.mp4'']]"

definition example_store :: store where
  "example_store = [''job-1'' \<mapsto> new_job ''job-1'' example_files [''/'', ''t''] []]"

definition example_done :: store where
  "example_done =
     [''job-1'' \<mapsto>
        (new_job ''job-1'' example_files [''/'', ''t''] [])
          \<lparr> status := ''completed'',
            download_path := Some [''/'', ''t'', ''outputs'', ''converted_audio.zip''] \<rparr>]"

definition example_disk :: "path list" where
  "example_disk =
     [[''/'', ''t''], [''/'', ''t'', ''outputs''],
      [''/'', ''t'', ''outputs'', ''converted_audio.zip''], [''/'', ''srv'']]"

definition example_folder_env :: env where
  "example_folder_env =
     \<lparr> moviepy_available = True,
       VideoFileClip = (\<lambda>p. if p = [''/'', ''videos'', ''y.MKV''] then No_audio
                             else Audio [] None),
       iterdir = (\<lambda>p. if p = [''/'', ''videos'']
                       then [[''/'', ''videos'', ''x.mp4''], [''/'', ''videos'', ''y.MKV''],
                             [''/'', ''videos'', ''notes.txt''], [''/'', ''videos'', ''z.avi'']]
                       else []),
       is_file = (\<lambda>p. True) \<rparr>"


section \<open>Rounding\<close>

lemma pow2_powi: "pow2 k = 2 powi k"
  by (simp add: pow2_def power_int_def field_simps)

lemma pow2_pos: "0 < pow2 k"
  by (simp add: pow2_powi)

lemma pow2_add: "pow2 (a + b) = pow2 a * pow2 b"
  by (simp add: pow2_powi power_int_add)

lemma pow2_mono: "a \<le> b \<Longrightarrow> pow2 a \<le> pow2 b"
  by (simp add: pow2_powi power_int_increasing)

lemma pow2_nat: "pow2 (int n) = 2 ^ n"
  by (simp add: pow2_def)

lemma ilog2_bounds:
  assumes "0 < x"
  shows "pow2 (ilog2 x) \<le> x \<and> x < pow2 (ilog2 x + 1)"
proof (cases "1 \<le> x")
  case True
  let ?n = "\<lfloor>x\<rfloor>"
  have n: "0 < ?n" using True by simp
  from bitlen_bounds [OF n] have b: "2 ^ nat (bitlen ?n - 1) \<le> ?n" "?n < 2 ^ nat (bitlen ?n)"
    by simp_all
  have b1: "1 \<le> bitlen ?n"
    using n by (simp add: bitlen_alt_def)
  have il: "ilog2 x = bitlen ?n - 1"
    using True by (simp add: ilog2_def)
  have p1: "pow2 (bitlen ?n - 1) = of_int (2 ^ nat (bitlen ?n - 1))"
    using b1 by (simp add: pow2_def)
  have p2: "pow2 (ilog2 x + 1) = of_int (2 ^ nat (bitlen ?n))"
    using b1 by (simp add: il pow2_def)
  have "of_int (2 ^ nat (bitlen ?n - 1)) \<le> (of_int ?n :: rat)"
    using b(1) by (subst of_int_le_iff)
  also have "\<dots> \<le> x" by simp
  finally have lo: "pow2 (ilog2 x) \<le> x"
    by (simp add: il p1)
  have "?n + 1 \<le> 2 ^ nat (bitlen ?n)"
    using b(2) by simp
  then have "(of_int (?n + 1) :: rat) \<le> of_int (2 ^ nat (bitlen ?n))"
    by (subst of_int_le_iff)
  moreover have "x < of_int (?n + 1)"
    by linarith
  ultimately have hi: "x < pow2 (ilog2 x + 1)"
    unfolding p2 by linarith
  show ?thesis using lo hi by simp
next
  case False
  let ?y = "1 / x"
  let ?n = "\<lceil>?y\<rceil>"
  have y: "1 < ?y" using False assms by (simp add: field_simps)
  then have n2: "2 \<le> ?n" by linarith
  then have n: "0 < ?n - 1" by simp
  let ?k = "bitlen (?n - 1)"
  from bitlen_bounds [OF n] have b: "2 ^ nat (?k - 1) \<le> ?n - 1" "?n - 1 < 2 ^ nat ?k"
    by simp_all
  have k1: "1 \<le> ?k"
    using n by (simp add: bitlen_alt_def)
  have il: "ilog2 x = - ?k"
    using False by (simp add: ilog2_def)
  have p1: "pow2 (- ?k) = 1 / of_int (2 ^ nat ?k)"
    using k1 by (simp add: pow2_def)
  have p2: "pow2 (ilog2 x + 1) = 1 / of_int (2 ^ nat (?k - 1))"
  proof (cases "?k = 1")
    case True
    then show ?thesis by (simp add: il pow2_def)
  next
    case False
    then have "- ?k + 1 < 0" "nat (- (- ?k + 1)) = nat (?k - 1)"
      using k1 by simp_all
    then show ?thesis
      unfolding il pow2_def by simp
  qed
  have "?n \<le> 2 ^ nat ?k" using b(2) by simp
  then have "(of_int ?n :: rat) \<le> of_int (2 ^ nat ?k)"
    by (subst of_int_le_iff)
  moreover have "?y \<le> of_int ?n" by simp
  ultimately have "?y \<le> of_int (2 ^ nat ?k)" by linarith
  then have lo: "pow2 (ilog2 x) \<le> x"
    using assms by (simp add: il p1 field_simps)
  have "(of_int (2 ^ nat (?k - 1)) :: rat) \<le> of_int (?n - 1)"
    using b(1) by (subst of_int_le_iff)
  moreover have "of_int (?n - 1) < ?y" by linarith
  ultimately have "of_int (2 ^ nat (?k - 1)) < ?y" by linarith
  then have hi: "x < pow2 (ilog2 x + 1)"
    unfolding p2 using assms by (simp add: field_simps)
  show ?thesis using lo hi by simp
qed

lemma ilog2_mono:
  assumes "0 < x" "x \<le> y"
  shows "ilog2 x \<le> ilog2 y"
proof (rule ccontr)
  assume "\<not> ilog2 x \<le> ilog2 y"
  then have "ilog2 y + 1 \<le> ilog2 x" by simp
  then have "pow2 (ilog2 y + 1) \<le> pow2 (ilog2 x)" by (rule pow2_mono)
  moreover have "y < pow2 (ilog2 y + 1)" "pow2 (ilog2 x) \<le> x"
    using ilog2_bounds [of x] ilog2_bounds [of y] assms by simp_all
  ultimately show False using assms by linarith
qed

lemma py_round_bounds: "\<lfloor>x\<rfloor> \<le> py_round x \<and> py_round x \<le> \<lfloor>x\<rfloor> + 1"
  by (simp add: py_round_def Let_def)

lemma py_round_mono:
  assumes "x \<le> y"
  shows "py_round x \<le> py_round y"
proof (cases "\<lfloor>x\<rfloor> = \<lfloor>y\<rfloor>")
  case True
  then have "x - of_int \<lfloor>x\<rfloor> \<le> y - of_int \<lfloor>x\<rfloor>"
    using assms by simp
  then show ?thesis
    unfolding py_round_def Let_def True [symmetric] by auto
next
  case False
  then have "\<lfloor>x\<rfloor> + 1 \<le> \<lfloor>y\<rfloor>"
    using floor_mono [OF assms] by simp
  then show ?thesis
    using py_round_bounds [of x] py_round_bounds [of y] by linarith
qed

lemma py_round_of_int: "py_round (of_int n) = n"
  by (simp add: py_round_def Let_def)

lemma rnd_pos_upper:
  assumes "0 < x"
  shows "rnd_pos x \<le> pow2 (max (ilog2 x) (- 1022) + 1)"
proof -
  let ?e = "max (ilog2 x) (- 1022)"
  let ?u = "pow2 (?e - 52)"
  have u: "0 < ?u" by (rule pow2_pos)
  have "x < pow2 (ilog2 x + 1)" using ilog2_bounds [OF assms] by simp
  also have "\<dots> \<le> pow2 (?e + 1)" by (rule pow2_mono) simp
  also have "\<dots> = pow2 (53 + (?e - 52))"
    by (rule arg_cong [where f = pow2]) simp
  also have "\<dots> = pow2 53 * ?u"
    by (rule pow2_add)
  finally have "x / ?u \<le> pow2 53"
    using u by (simp add: field_simps)
  also have "pow2 53 = of_int (2 ^ 53)"
    by (simp add: pow2_def)
  finally have "py_round (x / ?u) \<le> 2 ^ 53"
    using py_round_mono [of "x / ?u" "of_int (2 ^ 53)"] by (simp only: py_round_of_int)
  then have "(of_int (py_round (x / ?u)) :: rat) \<le> of_int (2 ^ 53)"
    by (subst of_int_le_iff)
  then have "of_int (py_round (x / ?u)) * ?u \<le> of_int (2 ^ 53) * ?u"
    using u by (simp add: mult_right_mono)
  also have "of_int (2 ^ 53) * ?u = pow2 53 * ?u"
    by (simp add: pow2_def)
  also have "\<dots> = pow2 (53 + (?e - 52))"
    by (rule pow2_add [symmetric])
  also have "\<dots> = pow2 (?e + 1)"
    by (rule arg_cong [where f = pow2]) simp
  finally show ?thesis
    unfolding rnd_pos_def Let_def .
qed

lemma rnd_pos_lower:
  assumes "0 < x" "- 1022 \<le> ilog2 x"
  shows "pow2 (ilog2 x) \<le> rnd_pos x"
proof -
  let ?e = "ilog2 x"
  let ?u = "pow2 (?e - 52)"
  have m: "max ?e (- 1022) = ?e" using assms(2) by simp
  have u: "0 < ?u" by (rule pow2_pos)
  have "pow2 ?e = pow2 (52 + (?e - 52))"
    by (rule arg_cong [where f = pow2]) simp
  also have "\<dots> = pow2 52 * ?u"
    by (rule pow2_add)
  finally have e: "pow2 ?e = pow2 52 * ?u" .
  have "pow2 ?e \<le> x" using ilog2_bounds [OF assms(1)] by simp
  then have "pow2 52 \<le> x / ?u"
    using u by (simp add: e field_simps)
  moreover have p52: "pow2 52 = of_int (2 ^ 52)"
    by (simp add: pow2_def)
  ultimately have "2 ^ 52 \<le> py_round (x / ?u)"
    using py_round_mono [of "of_int (2 ^ 52)" "x / ?u"] by (simp only: py_round_of_int)
  then have "(of_int (2 ^ 52) :: rat) \<le> of_int (py_round (x / ?u))"
    by (subst of_int_le_iff)
  then have "of_int (2 ^ 52) * ?u \<le> of_int (py_round (x / ?u)) * ?u"
    using u by (simp add: mult_right_mono)
  moreover have "of_int (2 ^ 52) * ?u = pow2 ?e"
    by (simp only: e p52)
  ultimately show ?thesis
    by (simp add: rnd_pos_def Let_def m)
qed

lemma rnd_pos_nonneg: "0 < x \<Longrightarrow> 0 \<le> rnd_pos x"
proof -
  assume "0 < x"
  let ?u = "pow2 (max (ilog2 x) (- 1022) - 52)"
  have u: "0 < ?u" by (rule pow2_pos)
  then have "0 \<le> x / ?u" using \<open>0 < x\<close> by simp
  then have "py_round (of_int 0) \<le> py_round (x / ?u)"
    by (intro py_round_mono) simp
  then have "0 \<le> py_round (x / ?u)"
    by (simp only: py_round_of_int)
  then show ?thesis
    using u by (simp add: rnd_pos_def Let_def)
qed

lemma rnd_pos_mono:
  assumes "0 < x" "x \<le> y"
  shows "rnd_pos x \<le> rnd_pos y"
proof -
  let ?ex = "max (ilog2 x) (- 1022)" and ?ey = "max (ilog2 y) (- 1022)"
  have y: "0 < y" using assms by simp
  have le: "?ex \<le> ?ey"
    using ilog2_mono [OF assms] by simp
  show ?thesis
  proof (cases "?ex = ?ey")
    case True
    let ?u = "pow2 (?ex - 52)"
    have u: "0 < ?u" by (rule pow2_pos)
    have "x / ?u \<le> y / ?u"
      using assms(2) u by (simp add: divide_right_mono)
    then have "py_round (x / ?u) \<le> py_round (y / ?u)"
      by (rule py_round_mono)
    then have "(of_int (py_round (x / ?u)) :: rat) \<le> of_int (py_round (y / ?u))"
      by (subst of_int_le_iff)
    then have "of_int (py_round (x / ?u)) * ?u \<le> of_int (py_round (y / ?u)) * ?u"
      using u by (simp add: mult_right_mono)
    then show ?thesis
      by (simp add: rnd_pos_def Let_def True [symmetric])
  next
    case False
    then have lt: "?ex + 1 \<le> ?ey" using le by simp
    then have n: "- 1022 \<le> ilog2 y" "?ey = ilog2 y" by simp_all
    have "rnd_pos x \<le> pow2 (?ex + 1)" by (rule rnd_pos_upper [OF assms(1)])
    also have "\<dots> \<le> pow2 ?ey" using lt by (rule pow2_mono)
    also have "\<dots> \<le> rnd_pos y"
      unfolding n(2) by (rule rnd_pos_lower [OF y n(1)])
    finally show ?thesis .
  qed
qed

lemma rnd_fin_mono:
  assumes "x \<le> y"
  shows "rnd_fin x \<le> rnd_fin y"
proof -
  consider "0 < x" | "x = 0" | "x < 0" "y < 0" | "x < 0" "y = 0" | "x < 0" "0 < y"
    using assms by linarith
  then show ?thesis
  proof cases
    case 1
    then show ?thesis using assms rnd_pos_mono [of x y] by (simp add: rnd_fin_def)
  next
    case 2
    then show ?thesis using assms rnd_pos_nonneg [of y] by (auto simp: rnd_fin_def)
  next
    case 3
    then show ?thesis using assms rnd_pos_mono [of "- y" "- x"] by (simp add: rnd_fin_def)
  next
    case 4
    then show ?thesis using rnd_pos_nonneg [of "- x"] by (simp add: rnd_fin_def)
  next
    case 5
    then show ?thesis using rnd_pos_nonneg [of "- x"] rnd_pos_nonneg [of y]
      by (simp add: rnd_fin_def)
  qed
qed

section \<open>The registry and the progress logger\<close>

lemma update_job_present:
  "js jid = Some job \<Longrightarrow> update_job jid cs js = js(jid \<mapsto> foldl setattr job cs)"
  by (simp add: update_job_def)

lemma jobs_publish: "jobs (publish jid cs r) = update_job jid cs (jobs r)"
  and errs_publish: "errs (publish jid cs r) = errs r"
  and generated_publish: "generated (publish jid cs r) = generated r"
  and dirs_publish: "dirs (publish jid cs r) = dirs r"
  and zip_file_publish: "zip_file (publish jid cs r) = zip_file r"
  and attempted_publish: "attempted (publish jid cs r) = attempted r"
  and seen_publish: "seen (publish jid cs r) = seen r @ [update_job jid cs (jobs r)]"
  by (simp_all add: publish_def Let_def)

lemmas publish_fields = jobs_publish errs_publish generated_publish dirs_publish zip_file_publish
  attempted_publish seen_publish

lemma publish_progress:
  "jobs r jid = Some job \<Longrightarrow>
   jobs (publish jid [Set_current_progress p] r) jid = Some (job\<lparr>current_progress := p\<rparr>)"
  by (simp add: publish_fields update_job_present)

lemma example_run_job:
  "jobs example_run ''job-1'' = Some (example_job\<lparr>current_progress := 7\<rparr>)"
  by (simp add: example_run_def start_run_def)

lemma callback_event:
  "callback jid bs r =
     (case event_percent bs of
        Inl exc \<Rightarrow> Inl exc
      | Inr None \<Rightarrow> Inr r
      | Inr (Some p) \<Rightarrow> Inr (publish jid [Set_current_progress p] r))"
  by (simp add: callback_def event_percent_def event_fraction_def del: first_bar.simps
      split: option.splits sum.splits)

section \<open>One file of the worker\<close>

lemma callback_effect:
  assumes "jobs r jid = Some job" and "callback jid bs r = Inr r'"
  shows "\<exists>p ss. jobs r' jid = Some (job\<lparr>current_progress := p\<rparr>) \<and>
      errs r' = errs r \<and> generated r' = generated r \<and> dirs r' = dirs r \<and>
      zip_file r' = zip_file r \<and> attempted r' = attempted r \<and>
      seen r' = seen r @ ss \<and>
      (\<forall>s \<in> set ss. counters jid s = counters jid (jobs r))"
proof (cases "event_percent bs")
  case (Inl exc)
  then show ?thesis using assms(2) by (simp add: callback_event)
next
  case (Inr po)
  show ?thesis
  proof (cases po)
    case None
    then have "r' = r" using Inr assms(2) by (simp add: callback_event)
    then show ?thesis using assms(1)
      by (intro exI [of _ "current_progress job"] exI [of _ "[]"]) simp
  next
    case (Some q)
    then have c: "r' = publish jid [Set_current_progress q] r"
      using Inr assms(2) by (simp add: callback_event)
    show ?thesis using assms(1) unfolding c
      by (intro exI [of _ q] exI [of _ "[update_job jid [Set_current_progress q] (jobs r)]"])
         (simp add: publish_fields update_job_present counters_def)
  qed
qed

lemma callback_probe:
  "(case callback jid bs r of Inl exc \<Rightarrow> Some exc | Inr r' \<Rightarrow> None) =
   (case probe bs u of Inl exc \<Rightarrow> Some exc | Inr u' \<Rightarrow> None)"
  by (simp add: callback_event probe_def split: sum.splits option.splits)

lemma report_effect:
  assumes "jobs r jid = Some job"
  shows "\<exists>r' p ss. report (callback jid) reported r = (r', snd (report probe reported ())) \<and>
      jobs r' jid = Some (job\<lparr>current_progress := p\<rparr>) \<and>
      errs r' = errs r \<and> generated r' = generated r \<and> dirs r' = dirs r \<and>
      zip_file r' = zip_file r \<and> attempted r' = attempted r \<and>
      seen r' = seen r @ ss \<and>
      (\<forall>s \<in> set ss. counters jid s = counters jid (jobs r))"
  using assms
proof (induction reported arbitrary: r job)
  case Nil
  then show ?case
    by (intro exI [of _ r] exI [of _ "current_progress job"] exI [of _ "[]"]) simp
next
  case (Cons bs reported)
  show ?case
  proof (cases "callback jid bs r")
    case (Inl exc)
    then have "probe bs () = Inl exc"
      using callback_probe [of jid bs r "()"] by (simp split: sum.splits)
    then show ?thesis using Inl Cons.prems
      by (intro exI [of _ r] exI [of _ "current_progress job"] exI [of _ "[]"]) simp
  next
    case (Inr r1)
    then have pr: "probe bs () = Inr ()"
      using callback_probe [of jid bs r "()"] by (simp split: sum.splits)
    from callback_effect [OF Cons.prems Inr] obtain p ss where
      1: "jobs r1 jid = Some (job\<lparr>current_progress := p\<rparr>)"
        "errs r1 = errs r" "generated r1 = generated r" "dirs r1 = dirs r"
        "zip_file r1 = zip_file r" "attempted r1 = attempted r"
        "seen r1 = seen r @ ss"
        "\<forall>s \<in> set ss. counters jid s = counters jid (jobs r)"
      by blast
    from Cons.IH [OF 1(1)] obtain r' p' ss' where
      2: "report (callback jid) reported r1 = (r', snd (report probe reported ()))"
        "jobs r' jid = Some (job\<lparr>current_progress := p'\<rparr>)"
        "errs r' = errs r1" "generated r' = generated r1" "dirs r' = dirs r1"
        "zip_file r' = zip_file r1" "attempted r' = attempted r1"
        "seen r' = seen r1 @ ss'"
        "\<forall>s \<in> set ss'. counters jid s = counters jid (jobs r1)"
      by auto
    have c: "counters jid (jobs r1) = counters jid (jobs r)"
      using 1(1) Cons.prems by (simp add: counters_def)
    show ?thesis
      using Inr pr 1 2 c
      by (intro exI [of _ r'] exI [of _ p'] exI [of _ "ss @ ss'"]) auto
  qed
qed

text \<open>
  The call of \<^verbatim>\<open>video_to_audio_file\<close> in the worker: what it raises or returns does not
  depend on the registry, and the registry changes in \<^verbatim>\<open>current_progress\<close> only.
\<close>

lemma convert_effect:
  assumes "jobs r jid = Some job"
  shows "\<exists>r' p ss.
      video_to_audio_file e (callback jid) f ap (dirs r, r) =
        ((if moviepy_available e then mkdir_parents (parent ap) (dirs r) else dirs r, r'),
         snd (video_to_audio_file e probe f ap ([], ()))) \<and>
      jobs r' jid = Some (job\<lparr>current_progress := p\<rparr>) \<and>
      errs r' = errs r \<and> generated r' = generated r \<and> dirs r' = dirs r \<and>
      zip_file r' = zip_file r \<and> attempted r' = attempted r \<and>
      seen r' = seen r @ ss \<and>
      (\<forall>s \<in> set ss. counters jid s = counters jid (jobs r))"
proof -
  have same: "\<exists>p ss. video_to_audio_file e (callback jid) f ap (dirs r, r) =
        ((if moviepy_available e then mkdir_parents (parent ap) (dirs r) else dirs r, r),
         snd (video_to_audio_file e probe f ap ([], ()))) \<and>
      jobs r jid = Some (job\<lparr>current_progress := p\<rparr>) \<and> seen r = seen r @ ss \<and>
      (\<forall>s \<in> set ss. counters jid s = counters jid (jobs r))"
    if "\<not> moviepy_available e \<or> (\<forall>reported raised. VideoFileClip e f \<noteq> Audio reported raised)"
    using that assms
    by (intro exI [of _ "current_progress job"] exI [of _ "[]"])
       (auto simp: video_to_audio_file_def require_moviepy_def Let_def split: clip.splits)
  show ?thesis
  proof (cases "\<not> moviepy_available e \<or> (\<forall>reported raised. VideoFileClip e f \<noteq> Audio reported raised)")
    case True
    from same [OF True] show ?thesis by (intro exI [of _ r]) auto
  next
    case False
    then obtain reported raised where
      av: "moviepy_available e" and cl: "VideoFileClip e f = Audio reported raised"
      by auto
    from report_effect [OF assms, of reported] obtain r' p ss where
      h: "report (callback jid) reported r = (r', snd (report probe reported ()))"
        "jobs r' jid = Some (job\<lparr>current_progress := p\<rparr>)"
        "errs r' = errs r" "generated r' = generated r" "dirs r' = dirs r"
        "zip_file r' = zip_file r" "attempted r' = attempted r"
        "seen r' = seen r @ ss"
        "\<forall>s \<in> set ss. counters jid s = counters jid (jobs r)"
      by blast
    have run: "video_to_audio_file e (callback jid) f ap (dirs r, r) =
        ((mkdir_parents (parent ap) (dirs r), r'),
         snd (video_to_audio_file e probe f ap ([], ())))"
      using av cl h(1)
      by (cases "report probe reported ()")
         (simp add: video_to_audio_file_def require_moviepy_def Let_def split: option.splits)
    show ?thesis
      using run h(2-9) av
      by (intro exI [of _ r'] exI [of _ p] exI [of _ ss]) simp
  qed
qed

text \<open>The state in which the handlers of the try statement run.\<close>

lemma before_handlers:
  fixes r :: run and index :: int and cf :: string and f :: path
  assumes "jobs r jid = Some job"
  defines "r1 \<equiv> (publish jid [Set_current_file (Some cf), Set_processed_files (index - 1),
                     Set_current_progress 0] r)\<lparr>attempted := attempted r @ [f]\<rparr>"
  shows "\<exists>r2 p ss.
      video_to_audio_file e (callback jid) f ap (dirs r1, r1) =
        ((if moviepy_available e then mkdir_parents (parent ap) (dirs r) else dirs r, r2),
         snd (video_to_audio_file e probe f ap ([], ()))) \<and>
      jobs r2 jid =
        Some (job\<lparr>current_file := Some cf, processed_files := index - 1, current_progress := p\<rparr>) \<and>
      errs r2 = errs r \<and> generated r2 = generated r \<and> zip_file r2 = zip_file r \<and>
      attempted r2 = attempted r @ [f] \<and> seen r2 = seen r @ ss \<and>
      (\<forall>s \<in> set ss. counters jid s = Some (total_files job, index - 1, converted job))"
proof -
  let ?j1 = "job\<lparr>current_file := Some cf, processed_files := index - 1, current_progress := 0\<rparr>"
  have j1: "jobs r1 jid = Some ?j1"
    using assms(1) by (simp add: r1_def publish_fields update_job_present)
  have f1: "errs r1 = errs r" "generated r1 = generated r" "zip_file r1 = zip_file r"
    "attempted r1 = attempted r @ [f]" "seen r1 = seen r @ [jobs r1]" "dirs r1 = dirs r"
    using assms(1) by (simp_all add: r1_def publish_fields)
  from convert_effect [OF j1, of e f ap] obtain r2 p ss where
    2: "video_to_audio_file e (callback jid) f ap (dirs r1, r1) =
        ((if moviepy_available e then mkdir_parents (parent ap) (dirs r1) else dirs r1, r2),
         snd (video_to_audio_file e probe f ap ([], ())))"
      "jobs r2 jid = Some (?j1\<lparr>current_progress := p\<rparr>)"
      "errs r2 = errs r1" "generated r2 = generated r1" "zip_file r2 = zip_file r1"
      "attempted r2 = attempted r1" "seen r2 = seen r1 @ ss"
      "\<forall>s \<in> set ss. counters jid s = counters jid (jobs r1)"
    by blast
  have c1: "counters jid (jobs r1) = Some (total_files job, index - 1, converted job)"
    using j1 by (simp add: counters_def)
  show ?thesis
    using 2 f1 c1
    by (intro exI [of _ r2] exI [of _ p] exI [of _ "jobs r1 # ss"]) auto
qed

lemma on_success_effect:
  assumes "jobs r jid = Some job"
  shows "\<exists>r'. on_success jid index produced audio_relative r = (Next, r') \<and>
      jobs r' jid = Some (job\<lparr>converted := int (length (generated r)) + 1, errors := errs r,
          processed_files := index, current_progress := 100\<rparr>) \<and>
      errs r' = errs r \<and> generated r' = generated r @ [(produced, audio_relative)] \<and>
      zip_file r' = zip_file r \<and> attempted r' = attempted r \<and> dirs r' = dirs r \<and>
      (\<exists>sa. seen r' = seen r @ [sa, jobs r'] \<and>
         counters jid sa = Some (total_files job, processed_files job, int (length (generated r)) + 1))"
  using assms
  by (simp add: on_success_def finally_update_def Let_def publish_fields update_job_present
      counters_def)

lemma on_exception_effect:
  assumes "jobs r jid = Some job"
  shows "\<exists>r'. on_exception jid index relative exc r = (Next, r') \<and>
      jobs r' jid = Some (job\<lparr>errors := errs r @ [as_posix relative @ '': '' @ str_exn exc],
          processed_files := index, current_progress := 0\<rparr>) \<and>
      errs r' = errs r @ [as_posix relative @ '': '' @ str_exn exc] \<and>
      generated r' = generated r \<and>
      zip_file r' = zip_file r \<and> attempted r' = attempted r \<and> dirs r' = dirs r \<and>
      seen r' = seen r @ [jobs r']"
  using assms
  by (simp add: on_exception_def finally_update_def Let_def publish_fields update_job_present)

lemma on_module_not_found_effect:
  assumes "jobs r jid = Some job"
  shows "\<exists>r'. on_module_not_found jid index exc r = (Returned, r') \<and>
      jobs r' jid = Some (job\<lparr>status := ''failed'', message := Some (str_exn exc),
          errors := errs r @ [str_exn exc],
          processed_files := index, current_file := None, current_progress := 0\<rparr>) \<and>
      errs r' = errs r @ [str_exn exc] \<and>
      generated r' = generated r \<and>
      zip_file r' = zip_file r \<and> attempted r' = attempted r \<and> dirs r' = dirs r \<and>
      seen r' = seen r @ [jobs r', jobs r']"
  using assms
  by (cases job)
     (simp add: on_module_not_found_def finally_update_def Let_def publish_fields update_job_present)

lemma process_file_unfold:
  assumes "audio_paths upload_dir output_dir f = Inr (relative, audio_relative, audio_path)"
  shows "process_file e jid upload_dir output_dir index f r =
    (let r1 = (publish jid [Set_current_file (Some (as_posix relative)),
               Set_processed_files (index - 1), Set_current_progress 0] r)
             \<lparr>attempted := attempted r @ [f]\<rparr>
     in case video_to_audio_file e (callback jid) f audio_path (dirs r1, r1) of
          ((ds, r2), result) \<Rightarrow>
            (case result of
               Inl exc \<Rightarrow>
                 if fatal result then on_module_not_found jid index exc (r2\<lparr>dirs := ds\<rparr>)
                 else on_exception jid index relative exc (r2\<lparr>dirs := ds\<rparr>)
             | Inr produced \<Rightarrow> on_success jid index produced audio_relative (r2\<lparr>dirs := ds\<rparr>)))"
  using assms
  by (simp add: process_file_def Let_def publish_fields split: sum.splits exn.splits prod.splits)

lemma process_file_effect:
  assumes job: "jobs r jid = Some job"
    and paths: "audio_paths upload_dir output_dir f = Inr (relative, audio_relative, audio_path)"
    and conv: "snd (video_to_audio_file e probe f audio_path ([], ())) = result"
  shows "\<exists>r' job' ss.
      process_file e jid upload_dir output_dir index f r =
        (if fatal result then Returned else Next, r') \<and>
      jobs r' jid = Some job' \<and>
      total_files job' = total_files job \<and>
      processed_files job' = index \<and>
      errors job' = errs r' \<and>
      converted job' =
        (if succeeded result then int (length (generated r)) + 1 else converted job) \<and>
      current_progress job' = (if succeeded result then 100 else 0) \<and>
      status job' = (if fatal result then ''failed'' else status job) \<and>
      (fatal result \<longrightarrow>
         message job' = Some (case result of Inl exc \<Rightarrow> str_exn exc | Inr produced \<Rightarrow> []) \<and>
         current_file job' = None) \<and>
      errs r' = errs r @
        (case result of
           Inl exc \<Rightarrow> [if fatal result then str_exn exc
                       else as_posix relative @ '': '' @ str_exn exc]
         | Inr produced \<Rightarrow> []) \<and>
      generated r' = generated r @
        (case result of Inl exc \<Rightarrow> [] | Inr produced \<Rightarrow> [(produced, audio_relative)]) \<and>
      zip_file r' = zip_file r \<and>
      attempted r' = attempted r @ [f] \<and>
      dirs r' =
        (if moviepy_available e then mkdir_parents (parent audio_path) (dirs r) else dirs r) \<and>
      seen r' = seen r @ ss @ [jobs r'] \<and>
      (\<forall>s \<in> set ss. \<exists>pf cv. counters jid s = Some (total_files job, pf, cv) \<and>
          (pf = index - 1 \<or> pf = index) \<and> (cv = converted job \<or> cv = converted job'))"
proof -
  define r1 where "r1 = (publish jid [Set_current_file (Some (as_posix relative)),
               Set_processed_files (index - 1), Set_current_progress 0] r)
             \<lparr>attempted := attempted r @ [f]\<rparr>"
  define ds where
    "ds = (if moviepy_available e then mkdir_parents (parent audio_path) (dirs r) else dirs r)"
  from before_handlers [OF job, where cf = "as_posix relative" and index = index and f = f
      and e = e and ap = audio_path, folded r1_def ds_def, unfolded conv]
  obtain r2 p ss where
    run: "video_to_audio_file e (callback jid) f audio_path (dirs r1, r1) = ((ds, r2), result)"
    and b0: "jobs r2 jid = Some (job\<lparr>current_file := Some (as_posix relative),
          processed_files := index - 1, current_progress := p\<rparr>)"
      "errs r2 = errs r" "generated r2 = generated r" "zip_file r2 = zip_file r"
      "attempted r2 = attempted r @ [f]" "seen r2 = seen r @ ss"
      "\<forall>s \<in> set ss. counters jid s = Some (total_files job, index - 1, converted job)"
    by blast
  define r3 where "r3 = r2\<lparr>dirs := ds\<rparr>"
  have b: "jobs r3 jid = Some (job\<lparr>current_file := Some (as_posix relative),
          processed_files := index - 1, current_progress := p\<rparr>)"
      "errs r3 = errs r" "generated r3 = generated r" "zip_file r3 = zip_file r"
      "attempted r3 = attempted r @ [f]" "seen r3 = seen r @ ss"
      "\<forall>s \<in> set ss. counters jid s = Some (total_files job, index - 1, converted job)"
      "dirs r3 = ds"
    using b0 by (simp_all add: r3_def)
  have unf: "process_file e jid upload_dir output_dir index f r =
      (case result of
         Inl exc \<Rightarrow>
           if fatal result then on_module_not_found jid index exc r3
           else on_exception jid index relative exc r3
       | Inr produced \<Rightarrow> on_success jid index produced audio_relative r3)"
    unfolding process_file_unfold [OF paths] Let_def r1_def [symmetric] run r3_def by simp
  show ?thesis
  proof (cases result)
    case (Inr produced)
    from on_success_effect [OF b(1), of index produced audio_relative]
    obtain r' sa where
      h: "on_success jid index produced audio_relative r3 = (Next, r')"
        "jobs r' jid = Some (job\<lparr>current_file := Some (as_posix relative),
          processed_files := index - 1, current_progress := p,
          converted := int (length (generated r3)) + 1, errors := errs r3,
          processed_files := index, current_progress := 100\<rparr>)"
        "errs r' = errs r3" "generated r' = generated r3 @ [(produced, audio_relative)]"
        "zip_file r' = zip_file r3" "attempted r' = attempted r3" "dirs r' = dirs r3"
        "seen r' = seen r3 @ [sa, jobs r']"
        "counters jid sa = Some (total_files job, index - 1, int (length (generated r3)) + 1)"
      by fastforce
    show ?thesis
      unfolding unf ds_def [symmetric]
      using Inr h b
      by (intro exI [of _ r'] exI [of _ "ss @ [sa]"]
            exI [of _ "job\<lparr>current_file := Some (as_posix relative),
          processed_files := index - 1, current_progress := p,
          converted := int (length (generated r3)) + 1, errors := errs r3,
          processed_files := index, current_progress := 100\<rparr>"]) auto
  next
    case (Inl exc)
    show ?thesis
    proof (cases "fatal result")
      case True
      from on_module_not_found_effect [OF b(1), of index exc]
      obtain r' where
        h: "on_module_not_found jid index exc r3 = (Returned, r')"
          "jobs r' jid = Some (job\<lparr>current_file := Some (as_posix relative),
            processed_files := index - 1, current_progress := p,
            status := ''failed'', message := Some (str_exn exc),
            errors := errs r3 @ [str_exn exc],
            processed_files := index, current_file := None, current_progress := 0\<rparr>)"
          "errs r' = errs r3 @ [str_exn exc]" "generated r' = generated r3"
          "zip_file r' = zip_file r3" "attempted r' = attempted r3" "dirs r' = dirs r3"
          "seen r' = seen r3 @ [jobs r', jobs r']"
        by blast
      have c: "counters jid (jobs r') = Some (total_files job, index, converted job)"
        using h(2) by (simp add: counters_def)
      show ?thesis
        unfolding unf ds_def [symmetric]
        using Inl True h b c
        by (intro exI [of _ r'] exI [of _ "ss @ [jobs r']"]
            exI [of _ "job\<lparr>current_file := Some (as_posix relative),
            processed_files := index - 1, current_progress := p,
            status := ''failed'', message := Some (str_exn exc),
            errors := errs r3 @ [str_exn exc],
            processed_files := index, current_file := None, current_progress := 0\<rparr>"]) auto
    next
      case False
      from on_exception_effect [OF b(1), of index relative exc]
      obtain r' where
        h: "on_exception jid index relative exc r3 = (Next, r')"
          "jobs r' jid = Some (job\<lparr>current_file := Some (as_posix relative),
            processed_files := index - 1, current_progress := p,
            errors := errs r3 @ [as_posix relative @ '': '' @ str_exn exc],
            processed_files := index, current_progress := 0\<rparr>)"
          "errs r' = errs r3 @ [as_posix relative @ '': '' @ str_exn exc]"
          "generated r' = generated r3"
          "zip_file r' = zip_file r3" "attempted r' = attempted r3" "dirs r' = dirs r3"
          "seen r' = seen r3 @ [jobs r']"
        by blast
      show ?thesis
        unfolding unf ds_def [symmetric]
        using Inl False h b
        by (intro exI [of _ r'] exI [of _ "ss"]
            exI [of _ "job\<lparr>current_file := Some (as_posix relative),
            processed_files := index - 1, current_progress := p,
            errors := errs r3 @ [as_posix relative @ '': '' @ str_exn exc],
            processed_files := index, current_progress := 0\<rparr>"]) auto
    qed
  qed
qed

section \<open>The loop of the worker\<close>

lemma with_suffix_stem:
  "name p \<noteq> [] \<Longrightarrow> with_suffix p sfx = Inr (butlast p @ [stem p @ sfx])"
  by (auto simp: with_suffix_def suffix_def name_suffix_def stem_def Let_def)

lemma placed_audio_paths:
  "placed upload_dir f \<Longrightarrow>
   audio_paths upload_dir output_dir f =
     Inr (drop (length upload_dir) f, audio_relative_of upload_dir f,
          joinpath output_dir (audio_relative_of upload_dir f))"
  by (simp add: placed_def audio_paths_def relative_to_def with_suffix_stem
      audio_relative_of_def Let_def)

lemma conversion_placed:
  "placed upload_dir f \<Longrightarrow>
   conversion e upload_dir output_dir f =
     snd (video_to_audio_file e probe f (joinpath output_dir (audio_relative_of upload_dir f))
            ([], ()))"
  by (simp add: conversion_def placed_audio_paths)

lemma video_to_audio_file_produced:
  "snd (video_to_audio_file e logger f audio_path w) = Inr p \<Longrightarrow> p = audio_path"
  by (auto simp: video_to_audio_file_def Let_def split: option.splits clip.splits prod.splits)

lemma conversion_unavailable:
  "placed upload_dir f \<Longrightarrow> \<not> moviepy_available e \<Longrightarrow> fatal (conversion e upload_dir output_dir f)"
  by (simp add: conversion_placed video_to_audio_file_def require_moviepy_def)

lemma process_files_append:
  "process_files e jid upload_dir output_dir index (xs @ ys) r =
     (case process_files e jid upload_dir output_dir index xs r of
        (Next, r') \<Rightarrow> process_files e jid upload_dir output_dir (index + int (length xs)) ys r'
      | (Returned, r') \<Rightarrow> (Returned, r')
      | (Uncaught exc, r') \<Rightarrow> (Uncaught exc, r'))"
proof (induction xs arbitrary: index r)
  case Nil
  then show ?case by simp
next
  case (Cons x xs)
  show ?case
  proof (cases "process_file e jid upload_dir output_dir index x r")
    case (Pair fl r1)
    have eq: "index + int (length (x # xs)) = index + 1 + int (length xs)"
      by simp
    show ?thesis
      unfolding eq using Cons.IH [of "index + 1" r1] Pair
      by (cases fl) simp_all
  qed
qed

text \<open>One placed file, in terms of \<open>conversion\<close>.\<close>

lemma process_file_placed:
  assumes job: "jobs r jid = Some job" and pl: "placed upload_dir f"
  shows "\<exists>r' job' ss.
      process_file e jid upload_dir output_dir index f r =
        (if fatal (conversion e upload_dir output_dir f) then Returned else Next, r') \<and>
      jobs r' jid = Some job' \<and>
      total_files job' = total_files job \<and>
      processed_files job' = index \<and>
      errors job' = errs r' \<and>
      converted job' =
        (if succeeded (conversion e upload_dir output_dir f)
         then int (length (generated r)) + 1 else converted job) \<and>
      current_progress job' = (if succeeded (conversion e upload_dir output_dir f) then 100 else 0) \<and>
      status job' = (if fatal (conversion e upload_dir output_dir f) then ''failed'' else status job) \<and>
      (fatal (conversion e upload_dir output_dir f) \<longrightarrow>
         message job' =
           Some (case conversion e upload_dir output_dir f of
                   Inl exc \<Rightarrow> str_exn exc | Inr produced \<Rightarrow> []) \<and>
         current_file job' = None) \<and>
      errs r' = errs r @
        (case conversion e upload_dir output_dir f of
           Inl exc \<Rightarrow> [if fatal (conversion e upload_dir output_dir f) then str_exn exc
                       else error_line e upload_dir output_dir f]
         | Inr produced \<Rightarrow> []) \<and>
      generated r' = generated r @
        (if succeeded (conversion e upload_dir output_dir f)
         then [(joinpath output_dir (audio_relative_of upload_dir f),
                audio_relative_of upload_dir f)]
         else []) \<and>
      zip_file r' = zip_file r \<and>
      attempted r' = attempted r @ [f] \<and>
      dirs r' =
        (if moviepy_available e
         then mkdir_parents (parent (joinpath output_dir (audio_relative_of upload_dir f))) (dirs r)
         else dirs r) \<and>
      seen r' = seen r @ ss @ [jobs r'] \<and>
      (\<forall>s \<in> set ss. \<exists>pf cv. counters jid s = Some (total_files job, pf, cv) \<and>
          (pf = index - 1 \<or> pf = index) \<and> (cv = converted job \<or> cv = converted job'))"
proof -
  define result where "result = conversion e upload_dir output_dir f"
  have conv: "snd (video_to_audio_file e probe f
      (joinpath output_dir (audio_relative_of upload_dir f)) ([], ())) = result"
    by (simp add: result_def conversion_placed [OF pl])
  have c: "conversion e upload_dir output_dir f = result"
    by (simp add: result_def)
  have p: "result = Inr produced \<Longrightarrow>
      produced = joinpath output_dir (audio_relative_of upload_dir f)" for produced
    using video_to_audio_file_produced [of e probe f
        "joinpath output_dir (audio_relative_of upload_dir f)" "([], ())" produced]
      conv by simp
  from process_file_effect [OF job placed_audio_paths [OF pl] conv, of index]
  obtain r' job' ss where h:
    "process_file e jid upload_dir output_dir index f r =
        (if fatal result then Returned else Next, r')"
    "jobs r' jid = Some job'"
    "total_files job' = total_files job"
    "processed_files job' = index"
    "errors job' = errs r'"
    "converted job' =
        (if succeeded result then int (length (generated r)) + 1 else converted job)"
    "current_progress job' = (if succeeded result then 100 else 0)"
    "status job' = (if fatal result then ''failed'' else status job)"
    "errs r' = errs r @
        (case result of
           Inl exc \<Rightarrow> [if fatal result then str_exn exc
                       else as_posix (drop (length upload_dir) f) @ '': '' @ str_exn exc]
         | Inr produced \<Rightarrow> [])"
    "generated r' = generated r @
        (case result of Inl exc \<Rightarrow> []
         | Inr produced \<Rightarrow> [(produced, audio_relative_of upload_dir f)])"
    "zip_file r' = zip_file r"
    "attempted r' = attempted r @ [f]"
    "seen r' = seen r @ ss @ [jobs r']"
    "\<forall>s \<in> set ss. \<exists>pf cv. counters jid s = Some (total_files job, pf, cv) \<and>
          (pf = index - 1 \<or> pf = index) \<and> (cv = converted job \<or> cv = converted job')"
    "fatal result \<longrightarrow>
         message job' = Some (case result of Inl exc \<Rightarrow> str_exn exc | Inr produced \<Rightarrow> []) \<and>
         current_file job' = None"
    "dirs r' =
        (if moviepy_available e
         then mkdir_parents (parent (joinpath output_dir (audio_relative_of upload_dir f))) (dirs r)
         else dirs r)"
    by blast
  have e1: "errs r' = errs r @
        (case conversion e upload_dir output_dir f of
           Inl exc \<Rightarrow> [if fatal (conversion e upload_dir output_dir f) then str_exn exc
                       else error_line e upload_dir output_dir f]
         | Inr produced \<Rightarrow> [])"
    using h(9) c by (cases result) (simp_all add: error_line_def)
  have g1: "generated r' = generated r @
        (if succeeded (conversion e upload_dir output_dir f)
         then [(joinpath output_dir (audio_relative_of upload_dir f),
                audio_relative_of upload_dir f)]
         else [])"
    using h(10) c p by (cases result) simp_all
  show ?thesis
    using h(1-8,11-16) e1 g1 unfolding c
    by (intro exI [of _ r'] exI [of _ job'] exI [of _ ss]) simp
qed


lemma process_files_effect:
  assumes "jobs r jid = Some job"
    and "\<forall>f \<in> set files. placed upload_dir f \<and> \<not> fatal (conversion e upload_dir output_dir f)"
  shows "\<exists>r' job'.
      process_files e jid upload_dir output_dir index files r = (Next, r') \<and>
      jobs r' jid = Some job' \<and>
      total_files job' = total_files job \<and>
      status job' = status job \<and>
      processed_files job' =
        (if files = [] then processed_files job else index + int (length files) - 1) \<and>
      errors job' = (if files = [] then errors job else errs r') \<and>
      converted job' =
        (if filter (\<lambda>f. succeeded (conversion e upload_dir output_dir f)) files = []
         then converted job else int (length (generated r'))) \<and>
      errs r' = errs r @ map (error_line e upload_dir output_dir)
        (filter (\<lambda>f. \<not> succeeded (conversion e upload_dir output_dir f)) files) \<and>
      generated r' = generated r @
        map (\<lambda>f. (joinpath output_dir (audio_relative_of upload_dir f),
                   audio_relative_of upload_dir f))
          (filter (\<lambda>f. succeeded (conversion e upload_dir output_dir f)) files) \<and>
      zip_file r' = zip_file r \<and>
      attempted r' = attempted r @ files \<and>
      dirs r' = made_dirs upload_dir output_dir (dirs r) files"
  using assms
proof (induction files arbitrary: r job index)
  case Nil
  then show ?case by (simp add: made_dirs_def)
next
  case (Cons f fs)
  have pl: "placed upload_dir f" and nf: "\<not> fatal (conversion e upload_dir output_dir f)"
    using Cons.prems(2) by simp_all
  from process_file_placed [OF Cons.prems(1) pl, of e output_dir index]
  obtain r1 job1 where h:
    "process_file e jid upload_dir output_dir index f r = (Next, r1)"
    "jobs r1 jid = Some job1"
    "total_files job1 = total_files job"
    "processed_files job1 = index"
    "errors job1 = errs r1"
    "converted job1 =
        (if succeeded (conversion e upload_dir output_dir f)
         then int (length (generated r)) + 1 else converted job)"
    "status job1 = status job"
    "errs r1 = errs r @
        (case conversion e upload_dir output_dir f of
           Inl exc \<Rightarrow> [if fatal (conversion e upload_dir output_dir f) then str_exn exc
                       else error_line e upload_dir output_dir f]
         | Inr produced \<Rightarrow> [])"
    "generated r1 = generated r @
        (if succeeded (conversion e upload_dir output_dir f)
         then [(joinpath output_dir (audio_relative_of upload_dir f),
                audio_relative_of upload_dir f)]
         else [])"
    "zip_file r1 = zip_file r"
    "attempted r1 = attempted r @ [f]"
    "dirs r1 =
        (if moviepy_available e
         then mkdir_parents (parent (joinpath output_dir (audio_relative_of upload_dir f))) (dirs r)
         else dirs r)"
    using nf by auto
  have d1: "dirs r1 =
      mkdir_parents (parent (joinpath output_dir (audio_relative_of upload_dir f))) (dirs r)"
    using h(12) conversion_unavailable [OF pl, of e output_dir] nf by auto
  have e1: "errs r1 = errs r @
      (if succeeded (conversion e upload_dir output_dir f) then []
       else [error_line e upload_dir output_dir f])"
    using h(8) nf by (cases "conversion e upload_dir output_dir f") simp_all
  have rest: "\<forall>f \<in> set fs. placed upload_dir f \<and> \<not> fatal (conversion e upload_dir output_dir f)"
    using Cons.prems(2) by simp
  from Cons.IH [OF h(2) rest, of "index + 1"]
  obtain r' job' where k:
    "process_files e jid upload_dir output_dir (index + 1) fs r1 = (Next, r')"
    "jobs r' jid = Some job'"
    "total_files job' = total_files job1"
    "status job' = status job1"
    "processed_files job' =
        (if fs = [] then processed_files job1 else index + 1 + int (length fs) - 1)"
    "errors job' = (if fs = [] then errors job1 else errs r')"
    "converted job' =
        (if filter (\<lambda>f. succeeded (conversion e upload_dir output_dir f)) fs = []
         then converted job1 else int (length (generated r')))"
    "errs r' = errs r1 @ map (error_line e upload_dir output_dir)
        (filter (\<lambda>f. \<not> succeeded (conversion e upload_dir output_dir f)) fs)"
    "generated r' = generated r1 @
        map (\<lambda>f. (joinpath output_dir (audio_relative_of upload_dir f),
                   audio_relative_of upload_dir f))
          (filter (\<lambda>f. succeeded (conversion e upload_dir output_dir f)) fs)"
    "zip_file r' = zip_file r1"
    "attempted r' = attempted r1 @ fs"
    "dirs r' = made_dirs upload_dir output_dir (dirs r1) fs"
    by blast
  have ds: "dirs r' = made_dirs upload_dir output_dir (dirs r) (f # fs)"
    using k(12) d1 by (simp add: made_dirs_def)
  have run: "process_files e jid upload_dir output_dir index (f # fs) r = (Next, r')"
    using h(1) k(1) by simp
  have pf: "processed_files job' = index + int (length (f # fs)) - 1"
    using k(5) h(4) by simp
  have er: "errors job' = errs r'"
    using k(6,8) h(5) by (cases "fs = []") simp_all
  have cv: "converted job' =
        (if filter (\<lambda>f. succeeded (conversion e upload_dir output_dir f)) (f # fs) = []
         then converted job else int (length (generated r')))"
    using k(7,9) h(6,9) by (simp split: if_splits)
  have es: "errs r' = errs r @ map (error_line e upload_dir output_dir)
        (filter (\<lambda>f. \<not> succeeded (conversion e upload_dir output_dir f)) (f # fs))"
    using k(8) e1 by simp
  have gs: "generated r' = generated r @
        map (\<lambda>f. (joinpath output_dir (audio_relative_of upload_dir f),
                   audio_relative_of upload_dir f))
          (filter (\<lambda>f. succeeded (conversion e upload_dir output_dir f)) (f # fs))"
    using k(9) h(9) by simp
  show ?case
    using run k(2) k(3) h(3) k(4) h(7) pf er cv es gs k(10) h(10) k(11) h(11) ds
    by (intro exI [of _ r'] exI [of _ job']) simp
qed


section \<open>A run of the worker\<close>

lemma start_effect:
  assumes "js jid = Some job"
  defines "r0 \<equiv> publish jid [Set_status ''running'', Set_message (Some ''Converting videos...''),
                 Set_errors [], Set_current_progress 0] (start_run js)"
  shows "jobs r0 jid = Some (job\<lparr>status := ''running'', message := Some ''Converting videos...'',
            errors := [], current_progress := 0\<rparr>)"
    and "errs r0 = []" and "generated r0 = []" and "zip_file r0 = None" and "attempted r0 = []"
    and "seen r0 = [js, jobs r0]" and "dirs r0 = []"
  using assms(1)
  by (simp_all add: r0_def publish_fields update_job_present start_run_def)

text \<open>The archive cannot be written: the exception leaves the registry as it is.\<close>

lemma after_loop_blocked:
  assumes "generated r \<noteq> []"
    and "joinpath output_dir (parse_segment ''converted_audio.zip'') \<in>
      set (mkdir_parents (parent (joinpath output_dir (parse_segment ''converted_audio.zip'')))
             (dirs r))"
  shows "\<exists>r'. after_loop jid output_dir r =
        (Uncaught (IsADirectoryError
           (''[Errno 21] Is a directory: '' @ [CHR 0x27] @
              as_posix (joinpath output_dir (parse_segment ''converted_audio.zip'')) @ [CHR 0x27])),
         r') \<and>
      jobs r' = jobs r \<and> seen r' = seen r \<and> zip_file r' = zip_file r \<and>
      errs r' = errs r \<and> generated r' = generated r \<and> attempted r' = attempted r"
  using assms by (simp add: after_loop_def Let_def)

lemma after_loop_effect:
  assumes "jobs r jid = Some job"
    and "generated r = [] \<or>
      joinpath output_dir (parse_segment ''converted_audio.zip'') \<notin>
      set (mkdir_parents (parent (joinpath output_dir (parse_segment ''converted_audio.zip'')))
             (dirs r))"
  shows "\<exists>r' job'. after_loop jid output_dir r = (Returned, r') \<and>
      jobs r' jid = Some job' \<and>
      total_files job' = total_files job \<and> processed_files job' = processed_files job \<and>
      converted job' = converted job \<and> errors job' = errors job \<and>
      temp_dir job' = temp_dir job \<and>
      status job' = (if generated r = [] then ''failed'' else ''completed'') \<and>
      generated_files job' =
        (if generated r = [] then generated_files job
         else map (\<lambda>(audio_path, arcname). as_posix arcname) (generated r)) \<and>
      download_path job' =
        (if generated r = [] then download_path job
         else Some (joinpath output_dir (parse_segment ''converted_audio.zip''))) \<and>
      current_file job' = None \<and>
      current_progress job' = (if generated r = [] then 0 else 100) \<and>
      zip_file r' =
        (if generated r = [] then zip_file r
         else Some (joinpath output_dir (parse_segment ''converted_audio.zip''),
                    zip_entries (generated r) (errs r))) \<and>
      errs r' = errs r \<and>
      generated r' = generated r \<and>
      attempted r' = attempted r \<and>
      seen r' = seen r @ [jobs r']"
  using assms
  by (auto simp: after_loop_def Let_def publish_fields update_job_present)

lemma process_job_effect:
  assumes job: "js jid = Some job"
    and files: "\<forall>f \<in> set files. placed upload_dir f \<and> \<not> fatal (conversion e upload_dir output_dir f)"
  defines "oks \<equiv> filter (\<lambda>f. succeeded (conversion e upload_dir output_dir f)) files"
  defines "fails \<equiv> filter (\<lambda>f. \<not> succeeded (conversion e upload_dir output_dir f)) files"
  assumes free: "oks = [] \<or> \<not> archive_blocked upload_dir output_dir files"
  shows "\<exists>r' job'.
      process_job e jid upload_dir output_dir files js = (Returned, r') \<and>
      jobs r' jid = Some job' \<and>
      total_files job' = total_files job \<and>
      processed_files job' = (if files = [] then processed_files job else int (length files)) \<and>
      converted job' = (if oks = [] then converted job else int (length oks)) \<and>
      errors job' = map (error_line e upload_dir output_dir) fails \<and>
      status job' = (if oks = [] then ''failed'' else ''completed'') \<and>
      (oks \<noteq> [] \<longrightarrow>
         generated_files job' = map (archive_name upload_dir) oks \<and>
         download_path job' = Some (joinpath output_dir (parse_segment ''converted_audio.zip''))) \<and>
      current_file job' = None \<and>
      current_progress job' = (if oks = [] then 0 else 100) \<and>
      zip_file r' =
        (if oks = [] then None
         else Some (joinpath output_dir (parse_segment ''converted_audio.zip''),
                zip_entries
                  (map (\<lambda>f. (joinpath output_dir (audio_relative_of upload_dir f),
                             audio_relative_of upload_dir f)) oks)
                  (map (error_line e upload_dir output_dir) fails))) \<and>
      attempted r' = files"
proof -
  define r0 where "r0 = publish jid [Set_status ''running'', Set_message (Some ''Converting videos...''),
                 Set_errors [], Set_current_progress 0] (start_run js)"
  define job0 where "job0 = job\<lparr>status := ''running'', message := Some ''Converting videos...'',
            errors := [], current_progress := 0\<rparr>"
  note s = start_effect [where js = js and jid = jid, OF job, folded r0_def job0_def]
  from process_files_effect [OF s(1) files, of 1]
  obtain r1 job1 where h:
    "process_files e jid upload_dir output_dir 1 files r0 = (Next, r1)"
    "jobs r1 jid = Some job1"
    "total_files job1 = total_files job0"
    "processed_files job1 =
        (if files = [] then processed_files job0 else 1 + int (length files) - 1)"
    "errors job1 = (if files = [] then errors job0 else errs r1)"
    "converted job1 = (if oks = [] then converted job0 else int (length (generated r1)))"
    "errs r1 = errs r0 @ map (error_line e upload_dir output_dir) fails"
    "generated r1 = generated r0 @
        map (\<lambda>f. (joinpath output_dir (audio_relative_of upload_dir f),
                   audio_relative_of upload_dir f)) oks"
    "zip_file r1 = zip_file r0"
    "attempted r1 = attempted r0 @ files"
    "dirs r1 = made_dirs upload_dir output_dir (dirs r0) files"
    unfolding oks_def fails_def by blast
  have j0: "total_files job0 = total_files job" "processed_files job0 = processed_files job"
    "converted job0 = converted job" "errors job0 = []" "temp_dir job0 = temp_dir job"
    "generated_files job0 = generated_files job" "download_path job0 = download_path job"
    by (simp_all add: job0_def)
  have e1: "errors job1 = map (error_line e upload_dir output_dir) fails"
    using h(5,7) s(2) j0(4) by (cases "files = []") (simp_all add: fails_def)
  have g1: "generated r1 =
        map (\<lambda>f. (joinpath output_dir (audio_relative_of upload_dir f),
                   audio_relative_of upload_dir f)) oks"
    using h(8) s(3) by simp
  have ge: "(generated r1 = []) = (oks = [])"
    using g1 by simp
  have es: "errs r1 = map (error_line e upload_dir output_dir) fails"
    using h(7) s(2) by simp
  have fr: "generated r1 = [] \<or>
      joinpath output_dir (parse_segment ''converted_audio.zip'') \<notin>
      set (mkdir_parents (parent (joinpath output_dir (parse_segment ''converted_audio.zip'')))
             (dirs r1))"
    using free unfolding ge h(11) s(7) archive_blocked_def Let_def by simp
  from after_loop_effect [OF h(2) fr]
  obtain r' job' where k:
    "after_loop jid output_dir r1 = (Returned, r')"
    "jobs r' jid = Some job'"
    "total_files job' = total_files job1" "processed_files job' = processed_files job1"
    "converted job' = converted job1" "errors job' = errors job1"
    "temp_dir job' = temp_dir job1"
    "status job' = (if generated r1 = [] then ''failed'' else ''completed'')"
    "generated_files job' =
        (if generated r1 = [] then generated_files job1
         else map (\<lambda>(audio_path, arcname). as_posix arcname) (generated r1))"
    "download_path job' =
        (if generated r1 = [] then download_path job1
         else Some (joinpath output_dir (parse_segment ''converted_audio.zip'')))"
    "current_file job' = None"
    "current_progress job' = (if generated r1 = [] then 0 else 100)"
    "zip_file r' =
        (if generated r1 = [] then zip_file r1
         else Some (joinpath output_dir (parse_segment ''converted_audio.zip''),
                    zip_entries (generated r1) (errs r1)))"
    "attempted r' = attempted r1"
    by blast
  have run: "process_job e jid upload_dir output_dir files js = (Returned, r')"
    using h(1) k(1) by (simp add: process_job_def Let_def r0_def)
  have gf: "map (\<lambda>(audio_path, arcname). as_posix arcname) (generated r1) =
      map (archive_name upload_dir) oks"
    by (simp add: g1 archive_name_def)
  have pf: "processed_files job' = (if files = [] then processed_files job else int (length files))"
    using k(4) h(4) j0(2) by simp
  have cv: "converted job' = (if oks = [] then converted job else int (length oks))"
    using k(5) h(6) j0(3) g1 by simp
  show ?thesis
    unfolding run
    using k(2) k(3) h(3) j0(1) pf cv k(6) e1 k(8-13) ge gf g1 es h(9) s(4) k(14) h(10) s(5)
      h(2)
    by (intro exI [of _ r'] exI [of _ job'])
       (cases "oks = []", simp_all)
qed

text \<open>
  The archive cannot be written although files converted: the worker dies after the loop
  and the job is left as the last file left it.
\<close>

lemma process_job_blocked:
  assumes job: "js jid = Some job"
    and files: "\<forall>f \<in> set files. placed upload_dir f \<and> \<not> fatal (conversion e upload_dir output_dir f)"
    and some: "filter (\<lambda>f. succeeded (conversion e upload_dir output_dir f)) files \<noteq> []"
    and blocked: "archive_blocked upload_dir output_dir files"
  shows "\<exists>exc r' job'.
      process_job e jid upload_dir output_dir files js = (Uncaught exc, r') \<and>
      jobs r' jid = Some job' \<and>
      status job' = ''running'' \<and>
      processed_files job' = int (length files) \<and>
      converted job' =
        int (length (filter (\<lambda>f. succeeded (conversion e upload_dir output_dir f)) files)) \<and>
      zip_file r' = None \<and>
      attempted r' = files"
proof -
  define r0 where "r0 = publish jid [Set_status ''running'', Set_message (Some ''Converting videos...''),
                 Set_errors [], Set_current_progress 0] (start_run js)"
  define job0 where "job0 = job\<lparr>status := ''running'', message := Some ''Converting videos...'',
            errors := [], current_progress := 0\<rparr>"
  note s = start_effect [where js = js and jid = jid, OF job, folded r0_def job0_def]
  let ?oks = "filter (\<lambda>f. succeeded (conversion e upload_dir output_dir f)) files"
  from process_files_effect [OF s(1) files, of 1]
  obtain r1 job1 where h:
    "process_files e jid upload_dir output_dir 1 files r0 = (Next, r1)"
    "jobs r1 jid = Some job1"
    "status job1 = status job0"
    "processed_files job1 =
        (if files = [] then processed_files job0 else 1 + int (length files) - 1)"
    "converted job1 = (if ?oks = [] then converted job0 else int (length (generated r1)))"
    "generated r1 = generated r0 @
        map (\<lambda>f. (joinpath output_dir (audio_relative_of upload_dir f),
                   audio_relative_of upload_dir f)) ?oks"
    "zip_file r1 = zip_file r0"
    "attempted r1 = attempted r0 @ files"
    "dirs r1 = made_dirs upload_dir output_dir (dirs r0) files"
    by blast
  have ne: "files \<noteq> []" using some by auto
  have g: "generated r1 \<noteq> []"
    using h(6) some by simp
  have bl: "joinpath output_dir (parse_segment ''converted_audio.zip'') \<in>
      set (mkdir_parents (parent (joinpath output_dir (parse_segment ''converted_audio.zip'')))
             (dirs r1))"
    using blocked unfolding h(9) s(7) archive_blocked_def Let_def by simp
  from after_loop_blocked [OF g bl, of jid] obtain r' where k:
    "after_loop jid output_dir r1 =
        (Uncaught (IsADirectoryError
           (''[Errno 21] Is a directory: '' @ [CHR 0x27] @
              as_posix (joinpath output_dir (parse_segment ''converted_audio.zip'')) @ [CHR 0x27])),
         r')"
    "jobs r' = jobs r1" "zip_file r' = zip_file r1" "attempted r' = attempted r1"
    by blast
  have run: "process_job e jid upload_dir output_dir files js =
      (Uncaught (IsADirectoryError
           (''[Errno 21] Is a directory: '' @ [CHR 0x27] @
              as_posix (joinpath output_dir (parse_segment ''converted_audio.zip'')) @ [CHR 0x27])),
       r')"
    using h(1) k(1) by (simp add: process_job_def Let_def r0_def)
  have st: "status job1 = ''running''"
    using h(3) by (simp add: job0_def)
  have cv: "converted job1 = int (length ?oks)"
    using h(5,6) some s(3) by simp
  show ?thesis
    unfolding run
    using k(2-4) h(2,4,7,8) st cv ne s(4,5)
    by (intro exI [of _ "IsADirectoryError
           (''[Errno 21] Is a directory: '' @ [CHR 0x27] @
              as_posix (joinpath output_dir (parse_segment ''converted_audio.zip'')) @ [CHR 0x27])"]
          exI [of _ r'] exI [of _ job1]) simp
qed

lemma example_placed:
  "\<forall>f \<in> set example_files. placed [''/'', ''t'', ''uploads''] f"
  by (simp add: example_files_def placed_def name_def has_root_def)

lemma example_conversion:
  "conversion example_env [''/'', ''t'', ''uploads''] [''/'', ''t'', ''outputs'']
      [''/'', ''t'', ''uploads'', ''a.mp4''] = Inr [''/'', ''t'', ''outputs'', ''a.mp3'']"
  "conversion example_env [''/'', ''t'', ''uploads''] [''/'', ''t'', ''outputs'']
      [''/'', ''t'', ''uploads'', ''b.mp4''] =
        Inl (ValueError (''Video '' @ [CHR 0x27] @ ''b.mp4'' @ [CHR 0x27] @ '' has no audio track''))"
  "conversion example_env [''/'', ''t'', ''uploads''] [''/'', ''t'', ''outputs'']
      [''/'', ''t'', ''uploads'', ''c.mp4''] = Inr [''/'', ''t'', ''outputs'', ''c.mp3'']"
  by (simp_all add: conversion_def audio_paths_def relative_to_def with_suffix_def name_def
      has_root_def suffix_def name_suffix_def rfind_def Let_def joinpath_def
      video_to_audio_file_def require_moviepy_def example_env_def)

section \<open>The archive\<close>

lemma join_nonempty:
  "xs \<noteq> [] \<Longrightarrow> last xs \<noteq> [] \<Longrightarrow> join sep xs \<noteq> []"
  by (induction sep xs rule: join.induct) simp_all

lemma last_join:
  "xs \<noteq> [] \<Longrightarrow> last xs \<noteq> [] \<Longrightarrow> last (join sep xs) = last (last xs)"
  by (induction sep xs rule: join.induct) (simp_all add: join_nonempty)

lemma last_as_posix:
  assumes "n \<noteq> []"
  shows "last (as_posix (q @ [n])) = last n"
proof (cases q)
  case Nil
  then show ?thesis by (simp add: as_posix_def)
next
  case (Cons r rest)
  have a: "join ''/'' (rest @ [n]) \<noteq> []" "last (join ''/'' (rest @ [n])) = last n"
    using assms by (simp_all add: join_nonempty last_join)
  have b: "last (join ''/'' (r # rest @ [n])) = last n"
    using assms last_join [of "r # rest @ [n]" "''/''"] by simp
  show ?thesis
    using Cons a b by (simp add: as_posix_def)
qed

lemma archive_name_not_report:
  "archive_name upload_dir f \<noteq> ''conversion_report.txt''"
proof
  assume "archive_name upload_dir f = ''conversion_report.txt''"
  then have "last (archive_name upload_dir f) = CHR ''t''"
    by simp
  moreover have "last (archive_name upload_dir f) = CHR ''3''"
    by (simp add: archive_name_def audio_relative_of_def Let_def last_as_posix)
  ultimately show False by simp
qed

lemma arcnames_zip_entries:
  "map arcname_of (zip_entries gen es) =
     map (\<lambda>(audio_path, arcname). as_posix arcname) gen @
     (if es \<noteq> [] then [''conversion_report.txt''] else [])"
  by (simp add: zip_entries_def case_prod_beta comp_def)

lemma stem_suffix: "stem p @ suffix p = name p"
  by (simp add: stem_def suffix_def name_suffix_def Let_def)

text \<open>
  C7.  The worker ran through the loop on files under the upload directory, none of which
  raised \<^verbatim>\<open>ModuleNotFoundError\<close>.  The job ends \<^verbatim>\<open>completed\<close> exactly when some file
  converted and the path of the archive is not a directory that a conversion made.  If the
  job is \<^verbatim>\<open>completed\<close>, the worker returned and an archive was written at the job's
  \<^verbatim>\<open>download_path\<close>; \<^verbatim>\<open>generated_files\<close> is, in order, the archive name of each file that
  converted (its path relative to the upload directory with the extension of its name
  replaced by \<^verbatim>\<open>.mp3\<close>); each of these names is the name of an entry of the archive; and the
  archive has an entry named \<^verbatim>\<open>conversion_report.txt\<close> exactly when the job's error list
  is not empty.  The archive is the list of entries handed to \<^verbatim>\<open>ZipFile\<close>, under the names
  given.
\<close>

theorem archive_matches_generated_files:
  assumes "js jid = Some job"
    and "\<forall>f \<in> set files. placed upload_dir f \<and> \<not> fatal (conversion e upload_dir output_dir f)"
  shows "\<exists>fl r' job'.
      process_job e jid upload_dir output_dir files js = (fl, r') \<and>
      jobs r' jid = Some job' \<and>
      (status job' = ''completed'' \<longleftrightarrow>
         filter (\<lambda>f. succeeded (conversion e upload_dir output_dir f)) files \<noteq> [] \<and>
         \<not> archive_blocked upload_dir output_dir files) \<and>
      (status job' = ''completed'' \<longrightarrow>
        fl = Returned \<and>
        errors job' =
          map (error_line e upload_dir output_dir)
            (filter (\<lambda>f. \<not> succeeded (conversion e upload_dir output_dir f)) files) \<and>
        (\<exists>zip_path entries.
           zip_file r' = Some (zip_path, entries) \<and>
           download_path job' = Some zip_path \<and>
           generated_files job' =
             map (archive_name upload_dir)
               (filter (\<lambda>f. succeeded (conversion e upload_dir output_dir f)) files) \<and>
           set (generated_files job') \<subseteq> set (map arcname_of entries) \<and>
           (''conversion_report.txt'' \<in> set (map arcname_of entries) \<longleftrightarrow> errors job' \<noteq> [])))"
proof (cases "filter (\<lambda>f. succeeded (conversion e upload_dir output_dir f)) files \<noteq> [] \<and>
    archive_blocked upload_dir output_dir files")
  case True
  from process_job_blocked [where js = js and jid = jid, OF assms]
  obtain exc r' job' where h:
    "process_job e jid upload_dir output_dir files js = (Uncaught exc, r')"
    "jobs r' jid = Some job'"
    "status job' = ''running''"
    using True by blast
  show ?thesis
    using h True by (intro exI [of _ "Uncaught exc"] exI [of _ r'] exI [of _ job']) simp
next
  case False
  let ?oks = "filter (\<lambda>f. succeeded (conversion e upload_dir output_dir f)) files"
  let ?fails = "filter (\<lambda>f. \<not> succeeded (conversion e upload_dir output_dir f)) files"
  let ?gen = "map (\<lambda>f. (joinpath output_dir (audio_relative_of upload_dir f),
                             audio_relative_of upload_dir f)) ?oks"
  let ?es = "map (error_line e upload_dir output_dir) ?fails"
  have free: "?oks = [] \<or> \<not> archive_blocked upload_dir output_dir files"
    using False by blast
  from process_job_effect [where js = js and jid = jid, OF assms free]
  obtain r' job' where h:
    "process_job e jid upload_dir output_dir files js = (Returned, r')"
    "jobs r' jid = Some job'"
    "errors job' = ?es"
    "status job' = (if ?oks = [] then ''failed'' else ''completed'')"
    "?oks \<noteq> [] \<longrightarrow>
         generated_files job' = map (archive_name upload_dir) ?oks \<and>
         download_path job' = Some (joinpath output_dir (parse_segment ''converted_audio.zip''))"
    "zip_file r' =
        (if ?oks = [] then None
         else Some (joinpath output_dir (parse_segment ''converted_audio.zip''),
                zip_entries ?gen ?es))"
    by blast
  have names: "map arcname_of (zip_entries ?gen ?es) =
      map (archive_name upload_dir) ?oks @ (if ?es \<noteq> [] then [''conversion_report.txt''] else [])"
    by (simp add: arcnames_zip_entries comp_def archive_name_def)
  have notrep: "''conversion_report.txt'' \<notin> set (map (archive_name upload_dir) ?oks)"
  proof
    assume "''conversion_report.txt'' \<in> set (map (archive_name upload_dir) ?oks)"
    then obtain f where "archive_name upload_dir f = ''conversion_report.txt''"
      by auto
    then show False
      using archive_name_not_report by blast
  qed
  have rep: "''conversion_report.txt'' \<in> set (map arcname_of (zip_entries ?gen ?es)) \<longleftrightarrow> ?es \<noteq> []"
    unfolding names using notrep by auto
  have sub: "set (map (archive_name upload_dir) ?oks) \<subseteq> set (map arcname_of (zip_entries ?gen ?es))"
    unfolding names by auto
  have st: "status job' = ''completed'' \<longleftrightarrow>
      ?oks \<noteq> [] \<and> \<not> archive_blocked upload_dir output_dir files"
    using h(4) free by auto
  have arch: "\<exists>zip_path entries.
           zip_file r' = Some (zip_path, entries) \<and>
           download_path job' = Some zip_path \<and>
           generated_files job' = map (archive_name upload_dir) ?oks \<and>
           set (generated_files job') \<subseteq> set (map arcname_of entries) \<and>
           (''conversion_report.txt'' \<in> set (map arcname_of entries) \<longleftrightarrow> errors job' \<noteq> [])"
    if "status job' = ''completed''"
  proof -
    have ne: "?oks \<noteq> []"
      using that h(4) by (simp split: if_splits)
    show ?thesis
      using ne h(3,5,6) rep sub
      by (intro exI [of _ "joinpath output_dir (parse_segment ''converted_audio.zip'')"]
            exI [of _ "zip_entries ?gen ?es"]) simp
  qed
  show ?thesis
    using h(1,2,3) st arch
    by (intro exI [of _ Returned] exI [of _ r'] exI [of _ job']) simp
qed

lemma example_good:
  "\<forall>f \<in> set example_files. placed [''/'', ''t'', ''uploads''] f \<and>
      \<not> fatal (conversion example_env [''/'', ''t'', ''uploads''] [''/'', ''t'', ''outputs''] f)"
  using example_placed by (simp add: example_files_def example_conversion)

lemma example_store_job:
  "example_store ''job-1'' = Some (new_job ''job-1'' example_files [''/'', ''t''] [])"
  by (simp add: example_store_def)

lemma example_archive_names:
  "archive_name [''/'', ''t'', ''uploads''] [''/'', ''t'', ''uploads'', ''a.mp4''] = ''a.mp3''"
  "archive_name [''/'', ''t'', ''uploads''] [''/'', ''t'', ''uploads'', ''c.mp4''] = ''c.mp3''"
  by (simp_all add: archive_name_def audio_relative_of_def stem_def name_def has_root_def
      rfind_def as_posix_def Let_def)

lemma example_free:
  "\<not> archive_blocked [''/'', ''t'', ''uploads''] [''/'', ''t'', ''outputs''] example_files"
  by code_simp

lemma example_oks:
  "filter (\<lambda>f. succeeded (conversion example_env [''/'', ''t'', ''uploads'']
      [''/'', ''t'', ''outputs''] f)) example_files =
     [[''/'', ''t'', ''uploads'', ''a.mp4''], [''/'', ''t'', ''uploads'', ''c.mp4'']]"
  "filter (\<lambda>f. \<not> succeeded (conversion example_env [''/'', ''t'', ''uploads'']
      [''/'', ''t'', ''outputs''] f)) example_files = [[''/'', ''t'', ''uploads'', ''b.mp4'']]"
  by (simp_all add: example_files_def example_conversion)

text \<open>The three files again: the archive holds \<^verbatim>\<open>a.mp3\<close>, \<^verbatim>\<open>c.mp3\<close> and the report.\<close>

theorem archive_matches_generated_files_witness:
  "\<exists>r' job' zip_path entries.
      process_job example_env ''job-1'' [''/'', ''t'', ''uploads''] [''/'', ''t'', ''outputs'']
        example_files example_store = (Returned, r') \<and>
      jobs r' ''job-1'' = Some job' \<and>
      status job' = ''completed'' \<and>
      zip_file r' = Some (zip_path, entries) \<and>
      download_path job' = Some zip_path \<and>
      generated_files job' = [''a.mp3'', ''c.mp3''] \<and>
      set (generated_files job') \<subseteq> set (map arcname_of entries) \<and>
      ''conversion_report.txt'' \<in> set (map arcname_of entries) \<and>
      length (errors job') = 1"
proof -
  let ?up = "[''/'', ''t'', ''uploads'']" and ?out = "[''/'', ''t'', ''outputs'']"
  let ?oks = "filter (\<lambda>f. succeeded (conversion example_env ?up ?out f)) example_files"
  let ?fails = "filter (\<lambda>f. \<not> succeeded (conversion example_env ?up ?out f)) example_files"
  from archive_matches_generated_files [where js = example_store and jid = "''job-1''",
      OF example_store_job example_good]
  obtain fl r' job' where h:
    "process_job example_env ''job-1'' ?up ?out example_files example_store = (fl, r')"
    "jobs r' ''job-1'' = Some job'"
    "status job' = ''completed'' \<longleftrightarrow> ?oks \<noteq> [] \<and> \<not> archive_blocked ?up ?out example_files"
    "status job' = ''completed'' \<longrightarrow>
        fl = Returned \<and>
        errors job' = map (error_line example_env ?up ?out) ?fails \<and>
        (\<exists>zip_path entries.
           zip_file r' = Some (zip_path, entries) \<and>
           download_path job' = Some zip_path \<and>
           generated_files job' = map (archive_name ?up) ?oks \<and>
           set (generated_files job') \<subseteq> set (map arcname_of entries) \<and>
           (''conversion_report.txt'' \<in> set (map arcname_of entries) \<longleftrightarrow> errors job' \<noteq> []))"
    by blast
  have st: "status job' = ''completed''"
    using h(3) example_free by (simp add: example_oks)
  from h(4) st have fl: "fl = Returned"
    and er: "errors job' = map (error_line example_env ?up ?out) ?fails"
    by blast+
  have ne: "length (errors job') = 1"
    unfolding er by (simp add: example_oks)
  from h(4) st obtain zip_path entries where k:
    "zip_file r' = Some (zip_path, entries)"
    "download_path job' = Some zip_path"
    "generated_files job' = map (archive_name ?up) ?oks"
    "set (generated_files job') \<subseteq> set (map arcname_of entries)"
    "''conversion_report.txt'' \<in> set (map arcname_of entries) \<longleftrightarrow> errors job' \<noteq> []"
    by blast
  have gf: "generated_files job' = [''a.mp3'', ''c.mp3'']"
    unfolding k(3) by (simp add: example_oks example_archive_names)
  have rep: "''conversion_report.txt'' \<in> set (map arcname_of entries)"
    using k(5) ne by auto
  show ?thesis
    using h(1,2) fl st k(1,2,4) gf rep ne
    by (intro exI [of _ r'] exI [of _ job'] exI [of _ zip_path] exI [of _ entries]) simp
qed

section \<open>The branches of the loop body\<close>

text \<open>
  C6.  File number \<open>index\<close> lies under the upload directory, and \<^verbatim>\<open>converted\<close> is the length
  of \<^verbatim>\<open>generated\<close> (as it is throughout a run that starts with \<^verbatim>\<open>converted = 0\<close>).  In
  each branch the last update of the body publishes \<^verbatim>\<open>processed_files = index\<close> and the
  current error list.  If the conversion raises anything but \<^verbatim>\<open>ModuleNotFoundError\<close>, the
  error list gets the line \<^verbatim>\<open>"<relative path>: <str(exc)>"\<close>, \<^verbatim>\<open>generated\<close> and \<^verbatim>\<open>converted\<close>
  stay, \<^verbatim>\<open>current_progress\<close> is 0 and the loop goes on with the next file.  If it returns,
  the pair of output path and archive-relative path is appended to \<^verbatim>\<open>generated\<close>, the error
  list stays, \<^verbatim>\<open>converted\<close> grows by 1, \<^verbatim>\<open>current_progress\<close> is 100 and the loop goes on.
\<close>

theorem per_file_outcome:
  assumes "jobs r jid = Some job"
    and "placed upload_dir f"
    and "converted job = int (length (generated r))"
  shows "\<exists>r' job'.
      process_file e jid upload_dir output_dir index f r =
        (if fatal (conversion e upload_dir output_dir f) then Returned else Next, r') \<and>
      jobs r' jid = Some job' \<and>
      last (seen r') = jobs r' \<and>
      processed_files job' = index \<and>
      errors job' = errs r' \<and>
      (\<forall>exc. conversion e upload_dir output_dir f = Inl exc \<and>
           \<not> fatal (conversion e upload_dir output_dir f) \<longrightarrow>
         errs r' = errs r @ [as_posix (drop (length upload_dir) f) @ '': '' @ str_exn exc] \<and>
         generated r' = generated r \<and>
         converted job' = converted job \<and>
         current_progress job' = 0 \<and>
         (\<forall>rest. process_files e jid upload_dir output_dir index (f # rest) r =
                 process_files e jid upload_dir output_dir (index + 1) rest r')) \<and>
      (\<forall>produced. conversion e upload_dir output_dir f = Inr produced \<longrightarrow>
         produced = joinpath output_dir (audio_relative_of upload_dir f) \<and>
         generated r' = generated r @ [(produced, audio_relative_of upload_dir f)] \<and>
         errs r' = errs r \<and>
         converted job' = converted job + 1 \<and>
         current_progress job' = 100 \<and>
         (\<forall>rest. process_files e jid upload_dir output_dir index (f # rest) r =
                 process_files e jid upload_dir output_dir (index + 1) rest r'))"
proof -
  let ?c = "conversion e upload_dir output_dir f"
  from process_file_placed [OF assms(1,2), of e output_dir index]
  obtain r' job' ss where h:
    "process_file e jid upload_dir output_dir index f r = (if fatal ?c then Returned else Next, r')"
    "jobs r' jid = Some job'"
    "processed_files job' = index"
    "errors job' = errs r'"
    "converted job' = (if succeeded ?c then int (length (generated r)) + 1 else converted job)"
    "current_progress job' = (if succeeded ?c then 100 else 0)"
    "errs r' = errs r @
        (case ?c of
           Inl exc \<Rightarrow> [if fatal ?c then str_exn exc else error_line e upload_dir output_dir f]
         | Inr produced \<Rightarrow> [])"
    "generated r' = generated r @
        (if succeeded ?c
         then [(joinpath output_dir (audio_relative_of upload_dir f),
                audio_relative_of upload_dir f)]
         else [])"
    "seen r' = seen r @ ss @ [jobs r']"
    by blast
  have l: "last (seen r') = jobs r'"
    using h(9) by simp
  have p: "?c = Inr produced \<Longrightarrow> produced = joinpath output_dir (audio_relative_of upload_dir f)"
    for produced
    using video_to_audio_file_produced [of e probe f
        "joinpath output_dir (audio_relative_of upload_dir f)" "([], ())"]
    by (simp add: conversion_placed [OF assms(2)])
  have fail: "errs r' = errs r @ [as_posix (drop (length upload_dir) f) @ '': '' @ str_exn exc] \<and>
         generated r' = generated r \<and>
         converted job' = converted job \<and>
         current_progress job' = 0 \<and>
         (\<forall>rest. process_files e jid upload_dir output_dir index (f # rest) r =
                 process_files e jid upload_dir output_dir (index + 1) rest r')"
    if "?c = Inl exc" and "\<not> fatal ?c" for exc
    using that h(1,5,6,7,8) by (simp add: error_line_def)
  have ok: "produced = joinpath output_dir (audio_relative_of upload_dir f) \<and>
         generated r' = generated r @ [(produced, audio_relative_of upload_dir f)] \<and>
         errs r' = errs r \<and>
         converted job' = converted job + 1 \<and>
         current_progress job' = 100 \<and>
         (\<forall>rest. process_files e jid upload_dir output_dir index (f # rest) r =
                 process_files e jid upload_dir output_dir (index + 1) rest r')"
    if "?c = Inr produced" for produced
    using that p [OF that] h(1,5,6,7,8) assms(3) by simp
  show ?thesis
    using h(1-4) l fail ok
    by (intro exI [of _ r'] exI [of _ job']) blast
qed


lemma example_start_job:
  "jobs (start_run example_store) ''job-1'' =
     Some (new_job ''job-1'' example_files [''/'', ''t''] [])"
  by (simp add: start_run_def example_store_def)

text \<open>The first and the second example file, each as the first file of a run.\<close>

theorem per_file_outcome_witness:
  "(\<exists>r' job'.
      process_file example_env ''job-1'' [''/'', ''t'', ''uploads''] [''/'', ''t'', ''outputs''] 1
        [''/'', ''t'', ''uploads'', ''a.mp4''] (start_run example_store) = (Next, r') \<and>
      jobs r' ''job-1'' = Some job' \<and>
      generated r' = [([''/'', ''t'', ''outputs'', ''a.mp3''], [''a.mp3''])] \<and>
      errs r' = [] \<and> errors job' = [] \<and>
      converted job' = 1 \<and> current_progress job' = 100 \<and> processed_files job' = 1) \<and>
   (\<exists>r' job'.
      process_file example_env ''job-1'' [''/'', ''t'', ''uploads''] [''/'', ''t'', ''outputs''] 1
        [''/'', ''t'', ''uploads'', ''b.mp4''] (start_run example_store) = (Next, r') \<and>
      jobs r' ''job-1'' = Some job' \<and>
      generated r' = [] \<and>
      errs r' = [''b.mp4: Video '' @ [CHR 0x27] @ ''b.mp4'' @ [CHR 0x27] @ '' has no audio track''] \<and>
      errors job' = errs r' \<and>
      converted job' = 0 \<and> current_progress job' = 0 \<and> processed_files job' = 1)"
proof -
  let ?up = "[''/'', ''t'', ''uploads'']" and ?out = "[''/'', ''t'', ''outputs'']"
  let ?a = "[''/'', ''t'', ''uploads'', ''a.mp4'']" and ?b = "[''/'', ''t'', ''uploads'', ''b.mp4'']"
  have pa: "placed ?up ?a" and pb: "placed ?up ?b"
    using example_placed by (simp_all add: example_files_def)
  have cv: "converted (new_job ''job-1'' example_files [''/'', ''t''] []) =
      int (length (generated (start_run example_store)))"
    by (simp add: new_job_def default_job_def start_run_def)
  have ar: "audio_relative_of ?up ?a = [''a.mp3'']"
    by (simp add: audio_relative_of_def stem_def name_def has_root_def rfind_def Let_def)
  have st: "errs (start_run example_store) = []" "generated (start_run example_store) = []"
    by (simp_all add: start_run_def)
  have c0: "converted (new_job ''job-1'' example_files [''/'', ''t''] []) = 0"
    by (simp add: new_job_def default_job_def)
  have ca: "conversion example_env ?up ?out ?a = Inr [''/'', ''t'', ''outputs'', ''a.mp3'']"
    and cb: "conversion example_env ?up ?out ?b =
        Inl (ValueError (''Video '' @ [CHR 0x27] @ ''b.mp4'' @ [CHR 0x27] @ '' has no audio track''))"
    by (rule example_conversion)+
  have nfa: "\<not> fatal (conversion example_env ?up ?out ?a)"
    and nfb: "\<not> fatal (conversion example_env ?up ?out ?b)"
    by (simp_all add: ca cb)
  from per_file_outcome [OF example_start_job pa cv, of example_env ?out 1]
  obtain ra ja where a:
    "process_file example_env ''job-1'' ?up ?out 1 ?a (start_run example_store) =
        (if fatal (conversion example_env ?up ?out ?a) then Returned else Next, ra)"
    "jobs ra ''job-1'' = Some ja"
    "processed_files ja = 1"
    "errors ja = errs ra"
    "\<forall>produced. conversion example_env ?up ?out ?a = Inr produced \<longrightarrow>
         produced = joinpath ?out (audio_relative_of ?up ?a) \<and>
         generated ra = generated (start_run example_store) @ [(produced, audio_relative_of ?up ?a)] \<and>
         errs ra = errs (start_run example_store) \<and>
         converted ja = converted (new_job ''job-1'' example_files [''/'', ''t''] []) + 1 \<and>
         current_progress ja = 100 \<and>
         (\<forall>rest. process_files example_env ''job-1'' ?up ?out 1 (?a # rest) (start_run example_store) =
                 process_files example_env ''job-1'' ?up ?out (1 + 1) rest ra)"
    by blast
  note a5 = a(5) [rule_format, OF ca]
  have 1: "process_file example_env ''job-1'' ?up ?out 1 ?a (start_run example_store) = (Next, ra) \<and>
      jobs ra ''job-1'' = Some ja \<and>
      generated ra = [([''/'', ''t'', ''outputs'', ''a.mp3''], [''a.mp3''])] \<and>
      errs ra = [] \<and> errors ja = [] \<and>
      converted ja = 1 \<and> current_progress ja = 100 \<and> processed_files ja = 1"
    using a(1-4) a5 nfa by (simp add: st c0 ar)
  from per_file_outcome [OF example_start_job pb cv, of example_env ?out 1]
  obtain rb jb where b:
    "process_file example_env ''job-1'' ?up ?out 1 ?b (start_run example_store) =
        (if fatal (conversion example_env ?up ?out ?b) then Returned else Next, rb)"
    "jobs rb ''job-1'' = Some jb"
    "processed_files jb = 1"
    "errors jb = errs rb"
    "\<forall>exc. conversion example_env ?up ?out ?b = Inl exc \<and>
           \<not> fatal (conversion example_env ?up ?out ?b) \<longrightarrow>
         errs rb = errs (start_run example_store) @
           [as_posix (drop (length ?up) ?b) @ '': '' @ str_exn exc] \<and>
         generated rb = generated (start_run example_store) \<and>
         converted jb = converted (new_job ''job-1'' example_files [''/'', ''t''] []) \<and>
         current_progress jb = 0 \<and>
         (\<forall>rest. process_files example_env ''job-1'' ?up ?out 1 (?b # rest) (start_run example_store) =
                 process_files example_env ''job-1'' ?up ?out (1 + 1) rest rb)"
    by blast
  note b5 = b(5) [rule_format, OF conjI [OF cb nfb]]
  have 2: "process_file example_env ''job-1'' ?up ?out 1 ?b (start_run example_store) = (Next, rb) \<and>
      jobs rb ''job-1'' = Some jb \<and>
      generated rb = [] \<and>
      errs rb = [''b.mp4: Video '' @ [CHR 0x27] @ ''b.mp4'' @ [CHR 0x27] @ '' has no audio track''] \<and>
      errors jb = errs rb \<and>
      converted jb = 0 \<and> current_progress jb = 0 \<and> processed_files jb = 1"
    using b(1-4) b5 nfb by (simp add: st c0 as_posix_def has_root_def)
  show ?thesis
    using 1 2 by (intro conjI exI [of _ ra] exI [of _ ja] exI [of _ rb] exI [of _ jb]) simp_all
qed


section \<open>Download\<close>

lemma rmtree_gone: "p \<in> set (rmtree d fs) \<Longrightarrow> take (length d) p \<noteq> d"
  by (simp add: rmtree_def)

lemma rmtree_self: "d \<notin> set (rmtree d fs)"
  by (auto simp: rmtree_def)

text \<open>
  C8.  A download request for an id that is not in the registry, or whose job is not
  \<^verbatim>\<open>completed\<close>, is answered not-found and changes nothing.  A request that is answered
  with the file finds a \<^verbatim>\<open>completed\<close> job, removes it from the registry and removes the
  job's temporary directory with everything under it, and nothing else; a second request for
  the same id is then answered not-found.  The request includes the clean-up that runs after
  it.
\<close>

theorem download_single_shot:
  "(js jid = None \<or> (\<exists>job. js jid = Some job \<and> status job \<noteq> ''completed'') \<longrightarrow>
      download jid (js, fs) = (Not_found, js, fs)) \<and>
   (\<forall>dp js' fs'. download jid (js, fs) = (Send_file dp, js', fs') \<longrightarrow>
      (\<exists>job. js jid = Some job \<and> status job = ''completed'' \<and> download_path job = Some dp \<and>
         (\<forall>d. temp_dir job = Some d \<longrightarrow>
            d \<notin> set fs' \<and> (d \<in> set fs \<longrightarrow> (\<forall>p \<in> set fs'. take (length d) p \<noteq> d)))) \<and>
      js' = js(jid := None) \<and>
      set fs' \<subseteq> set fs \<and>
      download jid (js', fs') = (Not_found, js', fs'))"
proof (intro conjI allI impI)
  assume "js jid = None \<or> (\<exists>job. js jid = Some job \<and> status job \<noteq> ''completed'')"
  then show "download jid (js, fs) = (Not_found, js, fs)"
    by (auto simp: download_def)
next
  fix dp js' fs'
  assume d: "download jid (js, fs) = (Send_file dp, js', fs')"
  then obtain job where j: "js jid = Some job"
    by (cases "js jid") (simp_all add: download_def)
  have st: "status job = ''completed''" and dp: "download_path job = Some dp"
    using d j by (auto simp: download_def split: if_splits option.splits)
  have js': "js' = js(jid := None)"
    using d j by (auto simp: download_def split: if_splits option.splits)
  have fs': "fs' = (case temp_dir job of None \<Rightarrow> fs
                   | Some d \<Rightarrow> if d \<in> set fs then rmtree d fs else fs)"
    using d j by (auto simp: download_def split: if_splits option.splits)
  have gone: "\<forall>d. temp_dir job = Some d \<longrightarrow>
            d \<notin> set fs' \<and> (d \<in> set fs \<longrightarrow> (\<forall>p \<in> set fs'. take (length d) p \<noteq> d))"
    unfolding fs' using rmtree_gone rmtree_self by auto
  show "\<exists>job. js jid = Some job \<and> status job = ''completed'' \<and> download_path job = Some dp \<and>
         (\<forall>d. temp_dir job = Some d \<longrightarrow>
            d \<notin> set fs' \<and> (d \<in> set fs \<longrightarrow> (\<forall>p \<in> set fs'. take (length d) p \<noteq> d)))"
    using j st dp gone by blast
  show "js' = js(jid := None)"
    by (rule js')
  show "set fs' \<subseteq> set fs"
    unfolding fs' by (auto simp: rmtree_def split: option.splits)
  show "download jid (js', fs') = (Not_found, js', fs')"
    unfolding js' by (simp add: download_def)
qed

text \<open>A pending job cannot be downloaded; a completed one can, once.\<close>

theorem download_single_shot_witness:
  "download ''job-1'' (example_store, example_disk) = (Not_found, example_store, example_disk) \<and>
   download ''job-1'' (example_done, example_disk) =
     (Send_file [''/'', ''t'', ''outputs'', ''converted_audio.zip''],
      example_done(''job-1'' := None), [[''/'', ''srv'']]) \<and>
   download ''job-1'' (example_done(''job-1'' := None), [[''/'', ''srv'']]) =
     (Not_found, example_done(''job-1'' := None), [[''/'', ''srv'']])"
proof -
  have p: "example_store ''job-1'' = None \<or>
      (\<exists>job. example_store ''job-1'' = Some job \<and> status job \<noteq> ''completed'')"
    by (simp add: example_store_def new_job_def default_job_def)
  have d: "download ''job-1'' (example_done, example_disk) =
     (Send_file [''/'', ''t'', ''outputs'', ''converted_audio.zip''],
      example_done(''job-1'' := None), [[''/'', ''srv'']])"
    by (simp add: download_def example_done_def example_disk_def new_job_def default_job_def
        rmtree_def)
  note th1 = download_single_shot [of example_store "''job-1''" example_disk, THEN conjunct1,
      rule_format, OF p]
  note th2 = download_single_shot [of example_done "''job-1''" example_disk, THEN conjunct2,
      rule_format, OF d]
  show ?thesis
    using th1 th2 d by simp
qed


section \<open>Converting a folder\<close>

lemma report_mute: "report mute reported u = (u, None)"
  by (induction reported) (simp_all add: mute_def)

lemma video_to_audio_file_available:
  "moviepy_available e \<Longrightarrow> converts (VideoFileClip e v) \<Longrightarrow>
   \<exists>ds'. video_to_audio_file e mute v audio_path (ds, ()) = ((ds', ()), Inr audio_path)"
  by (cases "VideoFileClip e v" rule: converts.cases)
     (simp_all add: video_to_audio_file_def require_moviepy_def report_mute)

lemma video_to_audio_file_fails:
  "moviepy_available e \<Longrightarrow> \<not> converts (VideoFileClip e v) \<Longrightarrow>
   \<exists>ds' exc. video_to_audio_file e mute v audio_path (ds, ()) = ((ds', ()), Inl exc)"
  by (cases "VideoFileClip e v" rule: converts.cases)
     (simp_all add: video_to_audio_file_def require_moviepy_def report_mute)

lemma folder_loop_effect:
  assumes "moviepy_available e"
  shows "folder_loop e out fmt vs ds (att, gen) =
    (att @ vs,
     gen @ map (audio_target out fmt) (filter (\<lambda>v. converts (VideoFileClip e v)) vs))"
proof (induction vs arbitrary: att gen ds)
  case Nil
  then show ?case by simp
next
  case (Cons v vs)
  show ?case
  proof (cases "converts (VideoFileClip e v)")
    case True
    from video_to_audio_file_available [OF assms True]
    obtain ds' where "video_to_audio_file e mute v (audio_target out fmt v) (ds, ()) =
        ((ds', ()), Inr (audio_target out fmt v))"
      by blast
    then show ?thesis
      using True Cons.IH by simp
  next
    case False
    from video_to_audio_file_fails [OF assms False]
    obtain ds' exc where "video_to_audio_file e mute v (audio_target out fmt v) (ds, ()) =
        ((ds', ()), Inl exc)"
      by blast
    then show ?thesis
      using False Cons.IH by simp
  qed
qed

text \<open>
  C10.  Without the media library \<^verbatim>\<open>video_to_audio_folder\<close> raises
  \<^verbatim>\<open>ModuleNotFoundError\<close> and no file has been handed to \<^verbatim>\<open>video_to_audio_file\<close>.  With it,
  every video file of the folder is attempted, in the order of the listing; the function
  returns (it does not raise, whatever the conversions raise) the output paths of exactly the
  files that converted, in that order.
\<close>

theorem video_to_audio_folder_result:
  "(\<not> moviepy_available e \<longrightarrow>
      video_to_audio_folder e video_folder output_folder audio_format =
        ([], Inl (ModuleNotFoundError
           ''moviepy is required to convert videos. Install it with `pip install moviepy`.''))) \<and>
   (moviepy_available e \<longrightarrow>
      video_to_audio_folder e video_folder output_folder audio_format =
        (let video_folder_path = Path [video_folder];
             output_folder_path =
               (case output_folder of
                  None \<Rightarrow> video_folder_path
                | Some s \<Rightarrow> if s = [] then video_folder_path else Path [s]);
             videos = iter_video_files e video_folder_path VIDEO_EXTENSIONS
         in (videos,
             Inr (map (audio_target output_folder_path audio_format)
                    (filter (\<lambda>v. converts (VideoFileClip e v)) videos)))))"
  by (simp add: video_to_audio_folder_def require_moviepy_def Let_def folder_loop_effect)

lemma lower_extensions: "map lower VIDEO_EXTENSIONS = VIDEO_EXTENSIONS"
  by code_simp

lemma example_folder_suffixes:
  "lower (suffix [''/'', ''videos'', ''x.mp4'']) = ''.mp4''"
  "lower (suffix [''/'', ''videos'', ''y.MKV'']) = ''.mkv''"
  "lower (suffix [''/'', ''videos'', ''notes.txt'']) = ''.txt''"
  "lower (suffix [''/'', ''videos'', ''z.avi'']) = ''.avi''"
  by code_simp+

lemma example_folder_videos:
  "iter_video_files example_folder_env [''/'', ''videos''] VIDEO_EXTENSIONS =
     [[''/'', ''videos'', ''x.mp4''], [''/'', ''videos'', ''y.MKV''], [''/'', ''videos'', ''z.avi'']]"
  by (simp add: iter_video_files_def Let_def lower_extensions example_folder_env_def
      example_folder_suffixes)
     (simp add: VIDEO_EXTENSIONS_def)

lemma example_folder_targets:
  "audio_target [''/'', ''out''] ''mp3'' [''/'', ''videos'', ''x.mp4''] = [''/'', ''out'', ''x.mp3'']"
  "audio_target [''/'', ''out''] ''mp3'' [''/'', ''videos'', ''z.avi''] = [''/'', ''out'', ''z.mp3'']"
  by (simp_all add: audio_target_def stem_def name_def has_root_def rfind_def Let_def
      joinpath_def parse_segment_def splitroot_def)

lemma example_folder_paths:
  "Path [''/videos''] = [''/'', ''videos'']" "Path [''/out''] = [''/'', ''out'']"
  by (simp_all add: Path_def joinpath_def parse_segment_def splitroot_def has_root_def)

text \<open>A folder of three videos and a text file, the second video without audio track.\<close>

theorem video_to_audio_folder_result_witness:
  "video_to_audio_folder example_folder_env ''/videos'' (Some ''/out'') ''mp3'' =
     ([[''/'', ''videos'', ''x.mp4''], [''/'', ''videos'', ''y.MKV''], [''/'', ''videos'', ''z.avi'']],
      Inr [[''/'', ''out'', ''x.mp3''], [''/'', ''out'', ''z.mp3'']]) \<and>
   video_to_audio_folder (example_folder_env\<lparr>moviepy_available := False\<rparr>)
       ''/videos'' (Some ''/out'') ''mp3'' =
     ([], Inl (ModuleNotFoundError
        ''moviepy is required to convert videos. Install it with `pip install moviepy`.''))"
proof -
  have av: "moviepy_available example_folder_env"
    "\<not> moviepy_available (example_folder_env\<lparr>moviepy_available := False\<rparr>)"
    by (simp_all add: example_folder_env_def)
  have cv: "converts (VideoFileClip example_folder_env [''/'', ''videos'', ''x.mp4''])"
    "\<not> converts (VideoFileClip example_folder_env [''/'', ''videos'', ''y.MKV''])"
    "converts (VideoFileClip example_folder_env [''/'', ''videos'', ''z.avi''])"
    by (simp_all add: example_folder_env_def)
  note a = video_to_audio_folder_result [of example_folder_env "''/videos''" "Some ''/out''" "''mp3''",
      THEN conjunct2, rule_format, OF av(1)]
  note b = video_to_audio_folder_result [of "example_folder_env\<lparr>moviepy_available := False\<rparr>"
      "''/videos''" "Some ''/out''" "''mp3''", THEN conjunct1, rule_format, OF av(2)]
  show ?thesis
    unfolding a b
    by (simp add: Let_def example_folder_paths example_folder_videos example_folder_targets cv)
qed


section \<open>Upload names\<close>

text \<open>
  C9.  The sanitizer drops the components \<^verbatim>\<open>""\<close>, \<^verbatim>\<open>"."\<close> and \<^verbatim>\<open>".."\<close> but keeps the root of
  an absolute name, and its fallback is the name of the path, which may be \<^verbatim>\<open>".."\<close>.  So
  the upload named \<^verbatim>\<open>/etc/cron.d/x.mp4\<close> is saved at that absolute path, outside the upload
  directory, and the upload named \<^verbatim>\<open>..\<close> gets the parent of the upload directory as its
  destination.
\<close>

theorem sanitize_keeps_root_and_parent:
  "sanitize_relative_path ''/etc/cron.d/x.mp4'' = [''/'', ''etc'', ''cron.d'', ''x.mp4''] \<and>
   has_root (sanitize_relative_path ''/etc/cron.d/x.mp4'') \<and>
   upload_destination [''/'', ''tmp'', ''convert_job_1'', ''uploads''] ''/etc/cron.d/x.mp4'' =
     [''/'', ''etc'', ''cron.d'', ''x.mp4''] \<and>
   sanitize_relative_path ''..'' = [''..''] \<and>
   upload_destination [''/'', ''tmp'', ''convert_job_1'', ''uploads''] ''..'' =
     [''/'', ''tmp'', ''convert_job_1'', ''uploads'', ''..'']"
  by code_simp


end
